theory Spec2Isabelle
  imports Main "HOL-Library.Sublist" "HOL-Library.Word"
begin

unbundle bit_operations_syntax

section \<open>Outcomes of a call\<close>

text \<open>
  A Go function of the program returns \<open>(value, error)\<close>, or never returns because
  \<open>log.Fatal\<close> or \<open>os.Exit\<close> ended the process, or because it panicked. The left
  side of a result says which:
  \<^item> \<open>Errorf m\<close>: the error value made by \<open>fmt.Errorf\<close>, whose text is \<open>m\<close>;
  \<^item> \<open>Fatal m\<close>: \<open>log.Fatal\<close> printed \<open>m\<close> and exited with status 1;
  \<^item> \<open>Exit0\<close>: \<open>os.Exit(0)\<close>;
  \<^item> \<open>NilDeref\<close>: a method call on a nil value panicked.
  An error of the standard library is kept as its text (what \<open>%w\<close> and \<open>%s\<close>
  print), on the left of \<open>string + 'a\<close>.
\<close>

datatype error = Errorf string | Fatal string | Exit0 | NilDeref

type_synonym 'a lib = "string + 'a"

section \<open>Formatting integers: the verb \<open>%d\<close>\<close>

definition digit :: "nat \<Rightarrow> char" where
  "digit d = ''0123456789'' ! d"

fun decimal :: "nat \<Rightarrow> string" where
  "decimal n = (if n < 10 then [digit n] else decimal (n div 10) @ [digit (n mod 10)])"

declare decimal.simps [simp del]

definition Itoa :: "int \<Rightarrow> string" where
  "Itoa i = (if i < 0 then CHR ''-'' # decimal (nat (- i)) else decimal (nat i))"

section \<open>Formatting: \<open>fmt.Sprintf\<close> and \<open>fmt.Errorf\<close>\<close>

text \<open>
  The program formats with the verbs \<open>%s\<close>, \<open>%d\<close> and \<open>%w\<close> only, each with an
  operand of the verb's type and never more operands than verbs. \<open>Sprintf\<close> is that
  fragment: the operands come already rendered (a string as it is, an integer by
  \<open>Itoa\<close>, an error by its text), each verb is replaced by the next operand, and a verb
  left without operand prints as Go prints it. An operand is copied, never scanned for
  verbs.
\<close>

fun Sprintf :: "string \<Rightarrow> string list \<Rightarrow> string" where
  "Sprintf [] args = []"
| "Sprintf [c] args = [c]"
| "Sprintf (c # v # format) args =
     (if c = CHR ''%'' \<and> v \<in> set ''sdw'' then
        (case args of
           a # rest \<Rightarrow> a @ Sprintf format rest
         | [] \<Rightarrow> ''%!'' @ [v] @ ''(MISSING)'' @ Sprintf format [])
      else c # Sprintf (v # format) args)"

abbreviation NL :: string where
  "NL \<equiv> [CHR 0x0A]"

section \<open>The data of the two programs\<close>

text \<open>
  The repository holds two programs with the same function names: the single-provider
  program \<open>gptc/commit-msg-helper.go\<close> and the two-provider program. Names of the
  two-provider program are kept; those of the single-provider program carry the prefix
  \<open>gptc_\<close> where the code differs. A field name that several structs share carries the
  struct's name in front.
\<close>

definition defaultGPTModel :: string where
  "defaultGPTModel = ''o4-mini''"

definition defaultGeminiModel :: string where
  "defaultGeminiModel = ''gemini-2.5-pro-exp-03-25''"

type_synonym Mode = string

definition ModeCommit :: Mode where
  "ModeCommit = ''commit''"

definition ModePR :: Mode where
  "ModePR = ''pr''"

type_synonym ProviderEnum = string

definition OpenAI :: ProviderEnum where
  "OpenAI = ''openai''"

definition Google :: ProviderEnum where
  "Google = ''google''"

definition defaultProvider :: string where
  "defaultProvider = OpenAI"

record Message =
  Role :: string
  Content :: string

record config =
  Model :: string
  Mode :: Mode
  Provider :: ProviderEnum

record OpenAIProvider =
  OpenAI_APIKey :: string
  APIURL :: string
  OpenAI_Model :: string

record gptc_OpenAIProvider =
  gptc_APIKey :: string
  gptc_APIURL :: string

record OpenAIRequestBody =
  Request_Model :: string
  Messages :: "Message list"

record Choice_Message =
  Choice_Content :: string

record Choice =
  Message :: Choice_Message

record OpenAIResponseBody =
  Choices :: "Choice list"

record GoogleGeminiProvider =
  Gemini_APIKey :: string
  BaseURL :: string
  Gemini_Model :: string

record GeminiPart =
  Text :: string

record GeminiContent =
  Parts :: "GeminiPart list"

record GeminiRequestBody =
  Contents :: "GeminiContent list"

record GeminiSafetyRating =
  Category :: string
  Probability :: string

record GeminiCandidate =
  Candidate_Content :: "GeminiContent option"
  FinishReason :: string
  Candidate_SafetyRatings :: "GeminiSafetyRating list"

record GeminiPromptFeedback =
  BlockReason :: string
  Feedback_SafetyRatings :: "GeminiSafetyRating list"

record GeminiResponseBody =
  Candidates :: "GeminiCandidate list"
  PromptFeedback :: "GeminiPromptFeedback option"

text \<open>The anonymous struct that a failed Gemini call is decoded into.\<close>

record errorResponse_Error =
  Error_Code :: int
  Error_Message :: string
  Error_Status :: string

record errorResponse =
  Error :: errorResponse_Error

datatype Provider = OpenAIProvider OpenAIProvider | GoogleGeminiProvider GoogleGeminiProvider

section \<open>The network and the JSON codec\<close>

text \<open>
  \<open>net/http\<close>, \<open>io\<close> and \<open>encoding/json\<close> are not code of the repository. The model
  takes them as the fields of a record: what \<open>json.Marshal\<close> makes of each request
  struct, which method and URL \<open>http.NewRequest\<close> refuses, what \<open>client.Do\<close> answers
  to a request, what \<open>io.ReadAll\<close> reads from a response body, and what the decoders
  make of a body. The body of a response is a stream, of any type \<open>'b\<close>.
\<close>

record Request =
  Method :: string
  URL :: string
  Header :: "string \<rightharpoonup> string"
  Body :: string

record 'b Response =
  StatusCode :: int
  Response_Body :: 'b

record 'b net =
  json_Marshal_openai :: "OpenAIRequestBody \<Rightarrow> string lib"
  json_Marshal_gemini :: "GeminiRequestBody \<Rightarrow> string lib"
  NewRequest_refuses :: "string \<Rightarrow> string \<Rightarrow> string option"
  client_Do :: "Request \<Rightarrow> 'b Response lib"
  io_ReadAll :: "'b \<Rightarrow> string lib"
  json_Decode_openai :: "'b \<Rightarrow> OpenAIResponseBody lib"
  json_Unmarshal_gemini :: "string \<Rightarrow> GeminiResponseBody lib"
  json_Unmarshal_error :: "string \<Rightarrow> errorResponse lib"

definition http_NewRequest :: "'b net \<Rightarrow> string \<Rightarrow> string \<Rightarrow> string \<Rightarrow> Request lib" where
  "http_NewRequest n method url body =
     (case NewRequest_refuses n method url of
        Some err \<Rightarrow> Inl err
      | None \<Rightarrow> Inr \<lparr>Method = method, URL = url, Header = Map.empty, Body = body\<rparr>)"

definition Header_Set :: "Request \<Rightarrow> string \<Rightarrow> string \<Rightarrow> Request" where
  "Header_Set req k v = req\<lparr>Header := (Header req)(k \<mapsto> v)\<rparr>"

section \<open>The generate-content client\<close>

text \<open>The loop over the parts of a candidate, writing each text to the builder.\<close>

fun WriteParts :: "string \<Rightarrow> GeminiPart list \<Rightarrow> string" where
  "WriteParts generatedText [] = generatedText"
| "WriteParts generatedText (part # parts) = WriteParts (generatedText @ Text part) parts"

text \<open>
  \<open>GoogleGeminiProvider.GenerateMessage\<close> in three parts, in the order of the code:
  the exchange with the server, up to the bytes read from the response body; what the
  function makes of the status code and of those bytes; and within that, the checks on a
  decoded answer that was not blocked.
\<close>

definition Gemini_roundTrip ::
    "'b net \<Rightarrow> GoogleGeminiProvider \<Rightarrow> string \<Rightarrow> error + (int \<times> string)" where
  "Gemini_roundTrip n p prompt =
     (let apiURL = Sprintf ''%s/v1beta/models/%s:generateContent?key=%s''
                     [BaseURL p, Gemini_Model p, Gemini_APIKey p];
          requestBody = \<lparr>Contents = [\<lparr>Parts = [\<lparr>Text = prompt\<rparr>]\<rparr>]\<rparr>
      in case json_Marshal_gemini n requestBody of
           Inl err \<Rightarrow> Inl (Errorf (Sprintf ''failed to marshal gemini request: %w'' [err]))
         | Inr jsonData \<Rightarrow>
      (case http_NewRequest n ''POST'' apiURL jsonData of
           Inl err \<Rightarrow> Inl (Errorf (Sprintf ''failed to create gemini request: %w'' [err]))
         | Inr req \<Rightarrow>
      (case client_Do n (Header_Set req ''Content-Type'' ''application/json'') of
           Inl err \<Rightarrow> Inl (Errorf (Sprintf ''failed to make gemini API request: %w'' [err]))
         | Inr resp \<Rightarrow>
      (case io_ReadAll n (Response_Body resp) of
           Inl err \<Rightarrow> Inl (Errorf (Sprintf ''failed to read gemini response body: %w'' [err]))
         | Inr bodyBytes \<Rightarrow> Inr (StatusCode resp, bodyBytes)))))"

definition Gemini_candidates :: "string \<Rightarrow> GeminiResponseBody \<Rightarrow> error + string" where
  "Gemini_candidates bodyBytes response =
     (case Candidates response of
        [] \<Rightarrow>
          Inl (Errorf (Sprintf ''no candidates in gemini API response. Body: %s'' [bodyBytes]))
      | candidate # _ \<Rightarrow>
          if FinishReason candidate \<noteq> ''STOP'' \<and> FinishReason candidate \<noteq> ''MAX_TOKENS'' then
            Inl (Errorf (Sprintf ''gemini generation finished due to %s'' [FinishReason candidate]))
          else
            (case Candidate_Content candidate of
               None \<Rightarrow>
                 Inl (Errorf (Sprintf
                   ''gemini response candidate has no content parts. FinishReason: %s''
                   [FinishReason candidate]))
             | Some content \<Rightarrow>
                 if length (Parts content) = 0 then
                   Inl (Errorf (Sprintf
                     ''gemini response candidate has no content parts. FinishReason: %s''
                     [FinishReason candidate]))
                 else Inr (WriteParts [] (Parts content))))"

definition Gemini_response :: "'b net \<Rightarrow> int \<Rightarrow> string \<Rightarrow> error + string" where
  "Gemini_response n statusCode bodyBytes =
     (if statusCode < 200 \<or> statusCode \<ge> 300 then
        (case json_Unmarshal_error n bodyBytes of
           Inr errorResponse \<Rightarrow>
             if Error_Message (Error errorResponse) \<noteq> [] then
               Inl (Errorf (Sprintf ''gemini API error (%d %s): %s''
                      [Itoa (Error_Code (Error errorResponse)), Error_Status (Error errorResponse),
                       Error_Message (Error errorResponse)]))
             else
               Inl (Errorf (Sprintf ''gemini API request failed with status %d: %s''
                      [Itoa statusCode, bodyBytes]))
         | Inl _ \<Rightarrow>
             Inl (Errorf (Sprintf ''gemini API request failed with status %d: %s''
                    [Itoa statusCode, bodyBytes])))
      else
        (case json_Unmarshal_gemini n bodyBytes of
           Inl err \<Rightarrow>
             Inl (Errorf (Sprintf (''failed to decode gemini response: %w'' @ NL
                    @ ''Response body: %s'') [err, bodyBytes]))
         | Inr response \<Rightarrow>
             (case PromptFeedback response of
                None \<Rightarrow> Gemini_candidates bodyBytes response
              | Some feedback \<Rightarrow>
                  if BlockReason feedback \<noteq> [] then
                    Inl (Errorf (Sprintf ''gemini prompt blocked due to %s'' [BlockReason feedback]))
                  else Gemini_candidates bodyBytes response)))"

definition GoogleGeminiProvider_GenerateMessage ::
    "'b net \<Rightarrow> GoogleGeminiProvider \<Rightarrow> string \<Rightarrow> error + string" where
  "GoogleGeminiProvider_GenerateMessage n p prompt =
     (case Gemini_roundTrip n p prompt of
        Inl e \<Rightarrow> Inl e
      | Inr (statusCode, bodyBytes) \<Rightarrow> Gemini_response n statusCode bodyBytes)"

section \<open>The chat-completion client\<close>

text \<open>
  \<open>OpenAIProvider.GenerateMessage\<close>, in the same parts. The two programs differ in
  where the model name comes from: a field of the provider in the two-provider program,
  a parameter in the single-provider program. What they make of the response is the
  same code, and reads the body only.
\<close>

definition OpenAI_post ::
    "'b net \<Rightarrow> string \<Rightarrow> string \<Rightarrow> string \<Rightarrow> string \<Rightarrow> error + 'b Response" where
  "OpenAI_post n apiURL apiKey model prompt =
     (let requestBody = \<lparr>Request_Model = model,
                          Messages = [\<lparr>Role = ''user'', Content = prompt\<rparr>]\<rparr>
      in case json_Marshal_openai n requestBody of
           Inl err \<Rightarrow> Inl (Errorf (Sprintf ''failed to marshal request: %w'' [err]))
         | Inr jsonData \<Rightarrow>
      (case http_NewRequest n ''POST'' apiURL jsonData of
           Inl err \<Rightarrow> Inl (Errorf (Sprintf ''failed to create request: %w'' [err]))
         | Inr req \<Rightarrow>
      (case client_Do n (Header_Set (Header_Set req ''Content-Type'' ''application/json'')
                           ''Authorization'' (''Bearer '' @ apiKey)) of
           Inl err \<Rightarrow> Inl (Errorf (Sprintf ''failed to make API request: %w'' [err]))
         | Inr resp \<Rightarrow> Inr resp)))"

definition OpenAI_response :: "'b net \<Rightarrow> 'b \<Rightarrow> error + string" where
  "OpenAI_response n body =
     (case json_Decode_openai n body of
        Inl err \<Rightarrow> Inl (Errorf (Sprintf ''failed to decode response: %w'' [err]))
      | Inr response \<Rightarrow>
          (case Choices response of
             [] \<Rightarrow> Inl (Errorf (Sprintf ''no choices in API response'' []))
           | choice # _ \<Rightarrow> Inr (Choice_Content (Message choice))))"

definition OpenAIProvider_GenerateMessage ::
    "'b net \<Rightarrow> OpenAIProvider \<Rightarrow> string \<Rightarrow> error + string" where
  "OpenAIProvider_GenerateMessage n p prompt =
     (case OpenAI_post n (APIURL p) (OpenAI_APIKey p) (OpenAI_Model p) prompt of
        Inl e \<Rightarrow> Inl e
      | Inr resp \<Rightarrow> OpenAI_response n (Response_Body resp))"

definition gptc_OpenAIProvider_GenerateMessage ::
    "'b net \<Rightarrow> gptc_OpenAIProvider \<Rightarrow> string \<Rightarrow> string \<Rightarrow> error + string" where
  "gptc_OpenAIProvider_GenerateMessage n p prompt model =
     (case OpenAI_post n (gptc_APIURL p) (gptc_APIKey p) model prompt of
        Inl e \<Rightarrow> Inl e
      | Inr resp \<Rightarrow> OpenAI_response n (Response_Body resp))"

text \<open>The call through the \<open>Provider\<close> interface.\<close>

fun GenerateMessage :: "'b net \<Rightarrow> Provider \<Rightarrow> string \<Rightarrow> error + string" where
  "GenerateMessage n (OpenAIProvider p) prompt = OpenAIProvider_GenerateMessage n p prompt"
| "GenerateMessage n (GoogleGeminiProvider p) prompt = GoogleGeminiProvider_GenerateMessage n p prompt"

section \<open>Choosing the provider\<close>

text \<open>\<open>os.LookupEnv\<close> on the environment, a map from names to values.\<close>

definition os_LookupEnv :: "(string \<rightharpoonup> string) \<Rightarrow> string \<Rightarrow> string \<times> bool" where
  "os_LookupEnv environ name = (case environ name of None \<Rightarrow> ([], False) | Some v \<Rightarrow> (v, True))"

definition ProviderEnumFromString :: "string \<Rightarrow> ProviderEnum \<times> string list" where
  \<comment> \<open>The second component: what the call writes to standard error, in order.\<close>
  "ProviderEnumFromString s =
     (if s = ''openai'' then (OpenAI, [])
      else if s = ''google'' then (Google, [])
      else (OpenAI, [Sprintf ''[WARN] invalid provider: %s'' [s],
                     Sprintf ''[INFO] defaulting to provider: %s'' [Google]]))"

definition NewProvider :: "(string \<rightharpoonup> string) \<Rightarrow> config \<Rightarrow> error + Provider" where
  "NewProvider environ cfg =
     (if Provider cfg = OpenAI then
        (let (key, ok) = os_LookupEnv environ ''OPENAI_API_KEY'' in
         if \<not> ok \<or> key = [] then
           Inl (Fatal ''API key not set. Please set the OPENAI_API_KEY environment variable.'')
         else
           (let model = (if Model cfg \<noteq> [] then Model cfg else defaultGPTModel)
            in Inr (OpenAIProvider \<lparr>OpenAI_APIKey = key,
                      APIURL = ''https://api.openai.com/v1/chat/completions'',
                      OpenAI_Model = model\<rparr>)))
      else if Provider cfg = Google then
        (let (key, ok) = os_LookupEnv environ ''GEMINI_API_KEY'' in
         if \<not> ok \<or> key = [] then
           Inl (Fatal ''API key not set. Please set the GEMINI_API_KEY environment variable.'')
         else
           (let model = (if Model cfg \<noteq> [] \<and> Model cfg \<noteq> defaultGPTModel then Model cfg
                         else defaultGeminiModel)
            in Inr (GoogleGeminiProvider \<lparr>Gemini_APIKey = key,
                      BaseURL = ''https://generativelanguage.googleapis.com'',
                      Gemini_Model = model\<rparr>)))
      else Inl (Fatal (Sprintf ''unsupported provider: %s'' [Provider cfg])))"

definition gptc_NewProvider :: "(string \<rightharpoonup> string) \<Rightarrow> config \<Rightarrow> error + gptc_OpenAIProvider" where
  "gptc_NewProvider environ cfg =
     (if Provider cfg = ''openai'' then
        (let (key, ok) = os_LookupEnv environ ''OPENAI_API_KEY'' in
         if \<not> ok \<or> key = [] then
           Inl (Fatal ''API key not set. Please set the OPENAI_API_KEY environment variable.'')
         else
           Inr \<lparr>gptc_APIKey = key, gptc_APIURL = ''https://api.openai.com/v1/chat/completions''\<rparr>)
      else Inl (Errorf (Sprintf ''unsupported provider: %s'' [Provider cfg])))"

section \<open>Building the prompt and generating the message\<close>

definition commitPromptTemplate :: string where
  "commitPromptTemplate =
     ''Do not use '' @ ''```'' @ ''.'' @ NL
     @ '' Create a CONVENTIONAL commit message for this git diff with the structure: <type>[optional scope]: <description>'' @ NL
     @ ''Ignore formatting and whitespace changes and focus on the big picture.'' @ NL
     @ ''%s''"

definition prPromptTemplate :: string where
  "prPromptTemplate =
     ''Do not use '' @ ''```'' @ ''.'' @ NL
     @ ''Create a pull request description for these changes.'' @ NL
     @ ''Include: 1) A clear title, 2) What changes were made, 3) Why these changes were necessary,'' @ NL
     @ ''and 4) Any testing considerations.'' @ NL
     @ ''Ignore formatting and whitespace changes and focus on the big picture.'' @ NL
     @ ''Write the description in GERMAN!!!'' @ NL
     @ ''Format with markdown:'' @ NL
     @ ''%s''"

definition generateMessage ::
    "(string \<rightharpoonup> string) \<Rightarrow> 'b net \<Rightarrow> config \<Rightarrow> string \<Rightarrow> error + string" where
  "generateMessage environ n cfg gitDiff =
     (case (if Mode cfg = ModeCommit then Inr (Sprintf commitPromptTemplate [gitDiff])
            else if Mode cfg = ModePR then Inr (Sprintf prPromptTemplate [gitDiff])
            else Inl (Errorf (Sprintf ''invalid mode: %s'' [Mode cfg]))) of
        Inl e \<Rightarrow> Inl e
      | Inr prompt \<Rightarrow>
          (case NewProvider environ cfg of
             Inl e \<Rightarrow> Inl e
           | Inr provider \<Rightarrow> GenerateMessage n provider prompt))"

definition gptc_generateMessage ::
    "(string \<rightharpoonup> string) \<Rightarrow> 'b net \<Rightarrow> config \<Rightarrow> string \<Rightarrow> error + string" where
  "gptc_generateMessage environ n cfg gitDiff =
     (case (if Mode cfg = ModeCommit then Inr (Sprintf commitPromptTemplate [gitDiff])
            else if Mode cfg = ModePR then Inr (Sprintf prPromptTemplate [gitDiff])
            else Inl (Errorf (Sprintf ''invalid mode: %s'' [Mode cfg]))) of
        Inl e \<Rightarrow> Inl e
      | Inr prompt \<Rightarrow>
          (case gptc_NewProvider environ cfg of
             Inl (Errorf err) \<Rightarrow> Inl (Errorf (Sprintf ''failed to create provider: %w'' [err]))
           | Inl e \<Rightarrow> Inl e
           | Inr provider \<Rightarrow> gptc_OpenAIProvider_GenerateMessage n provider prompt (Model cfg)))"

section \<open>Reading the diff\<close>

text \<open>
  \<open>strings.TrimSpace\<close> on the bytes of a string: it removes, first from the left and
  then from the right, every white-space code point, which Go decodes as UTF-8. A code
  point stands at the start (or at the end) of a string exactly when its UTF-8 encoding
  is a prefix (or a suffix) of it, so trimming removes the encodings below, which are
  those of Unicode's White_Space property. No encoding is empty, so the empty string
  has no leading and no trailing space: the test for it in \<open>TrimLeft\<close> and
  \<open>TrimRight\<close> changes no result and is there for the termination proofs.
\<close>

definition White_Space :: "string list" where
  "White_Space =
     [ [CHR 0x09], [CHR 0x0A], [CHR 0x0B], [CHR 0x0C], [CHR 0x0D], [CHR 0x20],
      [CHR 0xC2, CHR 0x85], [CHR 0xC2, CHR 0xA0],
      [CHR 0xE1, CHR 0x9A, CHR 0x80],
      [CHR 0xE2, CHR 0x80, CHR 0x80], [CHR 0xE2, CHR 0x80, CHR 0x81],
      [CHR 0xE2, CHR 0x80, CHR 0x82], [CHR 0xE2, CHR 0x80, CHR 0x83],
      [CHR 0xE2, CHR 0x80, CHR 0x84], [CHR 0xE2, CHR 0x80, CHR 0x85],
      [CHR 0xE2, CHR 0x80, CHR 0x86], [CHR 0xE2, CHR 0x80, CHR 0x87],
      [CHR 0xE2, CHR 0x80, CHR 0x88], [CHR 0xE2, CHR 0x80, CHR 0x89],
      [CHR 0xE2, CHR 0x80, CHR 0x8A],
      [CHR 0xE2, CHR 0x80, CHR 0xA8], [CHR 0xE2, CHR 0x80, CHR 0xA9],
      [CHR 0xE2, CHR 0x80, CHR 0xAF],
      [CHR 0xE2, CHR 0x81, CHR 0x9F],
      [CHR 0xE3, CHR 0x80, CHR 0x80] ]"

definition leadingSpace :: "string \<Rightarrow> nat" where
  \<comment> \<open>The width of the white-space code point the string starts with, 0 if there is none.\<close>
  "leadingSpace s = (case find (\<lambda>e. prefix e s) White_Space of None \<Rightarrow> 0 | Some e \<Rightarrow> length e)"

definition trailingSpace :: "string \<Rightarrow> nat" where
  "trailingSpace s = (case find (\<lambda>e. suffix e s) White_Space of None \<Rightarrow> 0 | Some e \<Rightarrow> length e)"

function TrimLeft :: "string \<Rightarrow> string" where
  "TrimLeft s = (if leadingSpace s = 0 \<or> s = [] then s else TrimLeft (drop (leadingSpace s) s))"
  by pat_completeness auto
termination
  by (relation "measure length") auto

function TrimRight :: "string \<Rightarrow> string" where
  "TrimRight s =
     (if trailingSpace s = 0 \<or> s = [] then s else TrimRight (take (length s - trailingSpace s) s))"
  by pat_completeness auto
termination
  by (relation "measure length") auto

declare TrimLeft.simps [simp del] TrimRight.simps [simp del]

definition TrimSpace :: "string \<Rightarrow> string" where
  "TrimSpace s = TrimRight (TrimLeft s)"

text \<open>
  What the process finds around it: the mode bits of standard input (\<open>None\<close> when
  \<open>Stat\<close> fails and leaves the file info nil), the name of standard input, what
  \<open>os.ReadFile\<close> reads from a path, and what running a command gives: the standard
  output that the buffer has caught, and the error of \<open>cmd.Run\<close> if there is one.
\<close>

type_synonym FileMode = "32 word"

definition ModeCharDevice :: FileMode where
  "ModeCharDevice = push_bit 21 1"

definition ModeDevice :: FileMode where
  "ModeDevice = push_bit 26 1"

definition ModeNamedPipe :: FileMode where
  "ModeNamedPipe = push_bit 25 1"

record proc =
  Stdin_Stat :: "FileMode option"
  Stdin_Name :: string
  os_ReadFile :: "string \<Rightarrow> string lib"
  cmd_Run :: "string list \<Rightarrow> string \<times> string option"

text \<open>
  What a run does that can be seen from outside, in order: a write to standard error or
  to standard output, a call of \<open>cmd.Run\<close> on a command line, and the usage text of
  \<open>printUsage\<close>, whose content is left out.
\<close>

datatype event = Stderr string | Stdout string | Run "string list" | Usage

text \<open>
  \<open>getGitDiff\<close> is the same text in both programs. Its second part, from the warning
  on, is reached from two places and is a definition of its own.
\<close>

definition stagedDiff :: "proc \<Rightarrow> (error + string) \<times> event list" where
  "stagedDiff os =
     (let warn = Stderr (''[WARN] No input from stdin, checking for staged changes...'' @ NL);
          cmd = [''git'', ''diff'', ''--staged''];
          (out, failed) = cmd_Run os cmd
      in case failed of
           Some err \<Rightarrow> (Inl (Errorf (Sprintf ''failed to get git diff: %w'' [err])), [warn, Run cmd])
         | None \<Rightarrow>
             (let diff = TrimSpace out
              in if diff = [] then (Inl (Errorf (Sprintf ''no staged changes found'' [])), [warn, Run cmd])
                 else (Inr diff, [warn, Run cmd])))"

definition getGitDiff :: "proc \<Rightarrow> (error + string) \<times> event list" where
  "getGitDiff os =
     (case Stdin_Stat os of
        None \<Rightarrow> (Inl NilDeref, [])
      | Some mode \<Rightarrow>
          if mode AND ModeCharDevice = 0 then
            (case os_ReadFile os (Stdin_Name os) of
               Inl err \<Rightarrow> (Inl (Errorf (Sprintf ''failed to read from stdin: %w'' [err])), [])
             | Inr stdinBytes \<Rightarrow>
                 (let diff = TrimSpace stdinBytes
                  in if diff \<noteq> [] then (Inr diff, []) else stagedDiff os))
          else stagedDiff os)"

section \<open>Flags and the run\<close>

text \<open>
  The values that \<open>flag.Parse\<close> leaves in the flag variables when it accepts the command
  line; \<open>-p\<close> and \<open>--provider\<close> share one variable. The choice of the mode is the same
  text in both programs and is a definition of its own: it gives the mode and what it
  writes.
\<close>

record flags =
  helpFlag :: bool
  modelFlag :: string
  providerFlag :: string
  commitFlag :: bool
  prFlag :: bool

definition parseMode :: "flags \<Rightarrow> Mode \<times> event list" where
  "parseMode f =
     (if prFlag f \<and> commitFlag f then
        (ModeCommit, [Stderr (''[WARN] Both --pr and --cm flags specified. Using --cm mode.'' @ NL)])
      else if prFlag f then (ModePR, [])
      else (ModeCommit, []))"

definition parseFlags :: "flags \<Rightarrow> (error + config) \<times> event list" where
  "parseFlags f =
     (let (provider0, err0) = ProviderEnumFromString defaultProvider
      in if helpFlag f then (Inl Exit0, map Stderr err0 @ [Usage])
         else
           (let (mode, err1) = parseMode f;
                (provider, err2) = ProviderEnumFromString (providerFlag f)
            in (Inr \<lparr>Model = modelFlag f, Mode = mode, Provider = provider\<rparr>,
                map Stderr err0 @ err1 @ map Stderr err2)))"

definition gptc_parseFlags :: "flags \<Rightarrow> (error + config) \<times> event list" where
  "gptc_parseFlags f =
     (if helpFlag f then (Inl Exit0, [Usage])
      else
        (let (mode, err1) = parseMode f
         in (Inr \<lparr>Model = modelFlag f, Mode = mode, Provider = providerFlag f\<rparr>, err1)))"

text \<open>
  \<open>main\<close>: \<open>log.Fatal\<close> prints its operands as \<open>fmt.Sprint\<close> does, with no space
  between two operands of which one is a string.
\<close>

definition main ::
    "(string \<rightharpoonup> string) \<Rightarrow> proc \<Rightarrow> 'b net \<Rightarrow> flags \<Rightarrow> (error + unit) \<times> event list" where
  "main environ os n f =
     (let (parsed, evs1) = parseFlags f in
      case parsed of
        Inl e \<Rightarrow> (Inl e, evs1)
      | Inr cfg \<Rightarrow>
          (let (diffed, evs2) = getGitDiff os in
           case diffed of
             Inl (Errorf err) \<Rightarrow> (Inl (Fatal (''Error getting git diff:'' @ err)), evs1 @ evs2)
           | Inl e \<Rightarrow> (Inl e, evs1 @ evs2)
           | Inr gitDiff \<Rightarrow>
               (case generateMessage environ n cfg gitDiff of
                  Inl (Errorf err) \<Rightarrow>
                    (Inl (Fatal (''Error generating message:'' @ err)), evs1 @ evs2)
                | Inl e \<Rightarrow> (Inl e, evs1 @ evs2)
                | Inr generatedMessage \<Rightarrow>
                    (Inr (), evs1 @ evs2 @ [Stdout (generatedMessage @ NL)]))))"

definition gptc_main ::
    "(string \<rightharpoonup> string) \<Rightarrow> proc \<Rightarrow> 'b net \<Rightarrow> flags \<Rightarrow> (error + unit) \<times> event list" where
  "gptc_main environ os n f =
     (let (parsed, evs1) = gptc_parseFlags f in
      case parsed of
        Inl e \<Rightarrow> (Inl e, evs1)
      | Inr cfg \<Rightarrow>
          (let (diffed, evs2) = getGitDiff os in
           case diffed of
             Inl (Errorf err) \<Rightarrow> (Inl (Fatal (''Error getting git diff:'' @ err)), evs1 @ evs2)
           | Inl e \<Rightarrow> (Inl e, evs1 @ evs2)
           | Inr gitDiff \<Rightarrow>
               (case gptc_generateMessage environ n cfg gitDiff of
                  Inl (Errorf err) \<Rightarrow>
                    (Inl (Fatal (''Error generating message:'' @ err)), evs1 @ evs2)
                | Inl e \<Rightarrow> (Inl e, evs1 @ evs2)
                | Inr generatedMessage \<Rightarrow>
                    (Inr (), evs1 @ evs2 @ [Stdout (generatedMessage @ NL)]))))"

section \<open>Views of a decoded answer\<close>

text \<open>
  Two readings of the decoded structs, in the words of the specification: the block
  reason of an answer, empty when the answer has no prompt feedback, and the content
  parts of a candidate, none when the candidate has no content.
\<close>

definition spec_blockReason :: "GeminiResponseBody \<Rightarrow> string" where
  "spec_blockReason r =
     (case PromptFeedback r of None \<Rightarrow> [] | Some feedback \<Rightarrow> BlockReason feedback)"

definition spec_contentParts :: "GeminiCandidate \<Rightarrow> GeminiPart list" where
  "spec_contentParts c =
     (case Candidate_Content c of None \<Rightarrow> [] | Some content \<Rightarrow> Parts content)"

text \<open>The same network, but every response it gives carries the status \<open>st\<close>.\<close>

definition with_status :: "int \<Rightarrow> 'b net \<Rightarrow> 'b net" where
  "with_status st n =
     n\<lparr>client_Do := (\<lambda>req. map_sum id (\<lambda>resp. resp\<lparr>StatusCode := st\<rparr>) (client_Do n req))\<rparr>"

section \<open>A world to run the programs in\<close>

text \<open>
  A server that answers every request with one status and one body, a codec that knows
  the JSON texts below and refuses every other, an environment with both keys, and a
  process whose standard input is a pipe.
\<close>

definition body_choice :: string where
  \<open>body_choice = ''{"choices":[{"message":{"content":"fix: typo"}}]}''\<close>

definition body_no_choice :: string where
  \<open>body_no_choice = ''{"choices":[]}''\<close>

definition body_bad_key :: string where
  \<open>body_bad_key = ''{"error":{"message":"bad key"}}''\<close>

definition body_hello :: string where
  \<open>body_hello =
     ''{"candidates":[{"content":{"parts":[{"text":"hel"},{"text":"lo"}]},"finishReason":"STOP"}]}''\<close>

definition body_safety :: string where
  \<open>body_safety = ''{"candidates":[{"finishReason":"SAFETY"}]}''\<close>

definition body_blocked :: string where
  \<open>body_blocked = ''{"promptFeedback":{"blockReason":"SAFETY"}}''\<close>

definition body_not_found :: string where
  \<open>body_not_found = ''{"error":{"code":404,"message":"model not found","status":"NOT_FOUND"}}''\<close>

definition demo_decode_openai :: "string \<Rightarrow> OpenAIResponseBody lib" where
  "demo_decode_openai b =
     (if b = body_choice then
        Inr \<lparr>Choices = [\<lparr>Message = \<lparr>Choice_Content = ''fix: typo''\<rparr>\<rparr>]\<rparr>
      else if b = body_no_choice \<or> b = body_bad_key then Inr \<lparr>Choices = []\<rparr>
      else Inl ''unexpected end of JSON input'')"

definition demo_unmarshal_gemini :: "string \<Rightarrow> GeminiResponseBody lib" where
  "demo_unmarshal_gemini b =
     (if b = body_hello then
        Inr \<lparr>Candidates = [\<lparr>Candidate_Content = Some \<lparr>Parts = [\<lparr>Text = ''hel''\<rparr>, \<lparr>Text = ''lo''\<rparr>]\<rparr>,
                             FinishReason = ''STOP'', Candidate_SafetyRatings = []\<rparr>],
             PromptFeedback = None\<rparr>
      else if b = body_safety then
        Inr \<lparr>Candidates = [\<lparr>Candidate_Content = None, FinishReason = ''SAFETY'',
                             Candidate_SafetyRatings = []\<rparr>],
             PromptFeedback = None\<rparr>
      else if b = body_blocked then
        Inr \<lparr>Candidates = [],
             PromptFeedback = Some \<lparr>BlockReason = ''SAFETY'', Feedback_SafetyRatings = []\<rparr>\<rparr>
      else if b = ''{}'' then Inr \<lparr>Candidates = [], PromptFeedback = None\<rparr>
      else Inl ''unexpected end of JSON input'')"

definition demo_unmarshal_error :: "string \<Rightarrow> errorResponse lib" where
  "demo_unmarshal_error b =
     (if b = body_not_found then
        Inr \<lparr>Error = \<lparr>Error_Code = 404, Error_Message = ''model not found'',
                       Error_Status = ''NOT_FOUND''\<rparr>\<rparr>
      else if b = ''{}'' then
        Inr \<lparr>Error = \<lparr>Error_Code = 0, Error_Message = [], Error_Status = []\<rparr>\<rparr>
      else Inl ''invalid character'')"

definition demo_net :: "int \<Rightarrow> string \<Rightarrow> string net" where
  "demo_net status body =
     \<lparr>json_Marshal_openai = (\<lambda>_. Inr ''{}''),
      json_Marshal_gemini = (\<lambda>_. Inr ''{}''),
      NewRequest_refuses = (\<lambda>_ _. None),
      client_Do = (\<lambda>_. Inr \<lparr>StatusCode = status, Response_Body = body\<rparr>),
      io_ReadAll = Inr,
      json_Decode_openai = demo_decode_openai,
      json_Unmarshal_gemini = demo_unmarshal_gemini,
      json_Unmarshal_error = demo_unmarshal_error\<rparr>"

definition demo_environ :: "string \<rightharpoonup> string" where
  "demo_environ = [''OPENAI_API_KEY'' \<mapsto> ''sk-1'', ''GEMINI_API_KEY'' \<mapsto> ''g-1'']"

definition demo_proc :: "string \<Rightarrow> string \<times> string option \<Rightarrow> proc" where
  \<comment> \<open>Standard input is a named pipe holding \<open>piped\<close>; \<open>git\<close> is what running a command gives.\<close>
  "demo_proc piped git =
     \<lparr>Stdin_Stat = Some ModeNamedPipe, Stdin_Name = ''/dev/stdin'',
      os_ReadFile = (\<lambda>_. Inr piped), cmd_Run = (\<lambda>_. git)\<rparr>"

definition demo_tty :: "string \<times> string option \<Rightarrow> proc" where
  \<comment> \<open>Standard input is a terminal: a character device.\<close>
  "demo_tty git =
     \<lparr>Stdin_Stat = Some (ModeDevice OR ModeCharDevice), Stdin_Name = ''/dev/stdin'',
      os_ReadFile = (\<lambda>_. Inl ''read error''), cmd_Run = (\<lambda>_. git)\<rparr>"

definition demo_flags :: flags where
  \<comment> \<open>No flag given: every flag has its default value.\<close>
  "demo_flags = \<lparr>helpFlag = False, modelFlag = defaultGPTModel, providerFlag = defaultProvider,
                 commitFlag = False, prFlag = False\<rparr>"

definition demo_gemini :: GoogleGeminiProvider where
  "demo_gemini = \<lparr>Gemini_APIKey = ''g-1'', BaseURL = ''https://generativelanguage.googleapis.com'',
                  Gemini_Model = defaultGeminiModel\<rparr>"

definition demo_openai :: OpenAIProvider where
  "demo_openai = \<lparr>OpenAI_APIKey = ''sk-1'', APIURL = ''https://api.openai.com/v1/chat/completions'',
                  OpenAI_Model = defaultGPTModel\<rparr>"

definition demo_gptc :: gptc_OpenAIProvider where
  "demo_gptc = \<lparr>gptc_APIKey = ''sk-1'', gptc_APIURL = ''https://api.openai.com/v1/chat/completions''\<rparr>"

section \<open>Facts shared by the proofs\<close>

lemma WriteParts_concat: "WriteParts generatedText parts = generatedText @ concat (map Text parts)"
  by (induction parts arbitrary: generatedText) simp_all

lemma Gemini_candidates_cases:
  "Gemini_candidates body r =
     (case Candidates r of
        [] \<Rightarrow> Inl (Errorf (''no candidates in gemini API response. Body: '' @ body))
      | c # _ \<Rightarrow>
          if FinishReason c \<noteq> ''STOP'' \<and> FinishReason c \<noteq> ''MAX_TOKENS'' then
            Inl (Errorf (''gemini generation finished due to '' @ FinishReason c))
          else if spec_contentParts c = [] then
            Inl (Errorf (''gemini response candidate has no content parts. FinishReason: ''
                   @ FinishReason c))
          else Inr (concat (map Text (spec_contentParts c))))"
  by (simp add: Gemini_candidates_def spec_contentParts_def WriteParts_concat
           split: list.split option.split)

lemma Gemini_after_roundTrip:
  "Gemini_roundTrip n p prompt = Inr (status, body) \<Longrightarrow>
   GoogleGeminiProvider_GenerateMessage n p prompt = Gemini_response n status body"
  by (simp add: GoogleGeminiProvider_GenerateMessage_def)

lemma demo_roundTrip: "Gemini_roundTrip (demo_net status body) p prompt = Inr (status, body)"
  by (simp add: Gemini_roundTrip_def demo_net_def http_NewRequest_def Let_def)

lemma demo_post:
  "OpenAI_post (demo_net status body) url key model prompt
     = Inr \<lparr>StatusCode = status, Response_Body = body\<rparr>"
  by (simp add: OpenAI_post_def demo_net_def http_NewRequest_def Let_def)

lemma OpenAI_response_cases:
  "json_Decode_openai n b = Inr r \<Longrightarrow>
   OpenAI_response n b =
     (case Choices r of
        [] \<Rightarrow> Inl (Errorf ''no choices in API response'')
      | c # _ \<Rightarrow> Inr (Choice_Content (Message c)))"
  by (simp add: OpenAI_response_def split: list.split)

lemma OpenAI_post_with_status:
  "OpenAI_post (with_status st n) url key model prompt =
     map_sum id (\<lambda>resp. resp\<lparr>StatusCode := st\<rparr>) (OpenAI_post n url key model prompt)"
  by (simp add: OpenAI_post_def with_status_def http_NewRequest_def Let_def
           split: sum.split option.split)

lemma OpenAI_response_with_status: "OpenAI_response (with_status st n) b = OpenAI_response n b"
  by (simp add: OpenAI_response_def with_status_def)

lemma commit_prompt:
  "Sprintf commitPromptTemplate [d] =
     ''Do not use ```.'' @ NL
     @ '' Create a CONVENTIONAL commit message for this git diff with the structure: <type>[optional scope]: <description>'' @ NL
     @ ''Ignore formatting and whitespace changes and focus on the big picture.'' @ NL
     @ d"
  by (simp add: commitPromptTemplate_def)

lemma pr_prompt:
  "Sprintf prPromptTemplate [d] =
     ''Do not use ```.'' @ NL
     @ ''Create a pull request description for these changes.'' @ NL
     @ ''Include: 1) A clear title, 2) What changes were made, 3) Why these changes were necessary,'' @ NL
     @ ''and 4) Any testing considerations.'' @ NL
     @ ''Ignore formatting and whitespace changes and focus on the big picture.'' @ NL
     @ ''Write the description in GERMAN!!!'' @ NL
     @ ''Format with markdown:'' @ NL
     @ d"
  by (simp add: prPromptTemplate_def)

lemma getGitDiff_piped:
  "Stdin_Stat os = Some mode \<Longrightarrow> mode AND ModeCharDevice = 0 \<Longrightarrow>
   os_ReadFile os (Stdin_Name os) = Inr content \<Longrightarrow> TrimSpace content \<noteq> [] \<Longrightarrow>
   getGitDiff os = (Inr (TrimSpace content), [])"
  by (simp add: getGitDiff_def)

lemma TrimSpace_demo: "TrimSpace ('' diff --git a/x b/x'' @ NL) = ''diff --git a/x b/x''"
  by code_simp

lemma TrimSpace_blank: "TrimSpace ('' '' @ NL) = []"
  by code_simp

lemma TrimSpace_Nil: "TrimSpace [] = []"
  by code_simp

lemma pipe_mode: "ModeNamedPipe AND ModeCharDevice = 0"
  by (simp add: ModeCharDevice_def ModeNamedPipe_def)

lemma tty_mode: "(ModeDevice OR ModeCharDevice) AND ModeCharDevice \<noteq> 0"
  by (simp add: ModeCharDevice_def ModeDevice_def)

lemma demo_getGitDiff:
  "getGitDiff (demo_proc ('' diff --git a/x b/x'' @ NL) git) = (Inr ''diff --git a/x b/x'', [])"
proof -
  let ?os = "demo_proc ('' diff --git a/x b/x'' @ NL) git"
  have stat: "Stdin_Stat ?os = Some ModeNamedPipe"
    by (simp add: demo_proc_def)
  have read: "os_ReadFile ?os (Stdin_Name ?os) = Inr ('' diff --git a/x b/x'' @ NL)"
    by (simp add: demo_proc_def)
  have trim: "TrimSpace ('' diff --git a/x b/x'' @ NL) \<noteq> []"
    by (simp only: TrimSpace_demo) simp
  show ?thesis
    using getGitDiff_piped [OF stat pipe_mode read trim] by (simp only: TrimSpace_demo)
qed

lemma demo_response: "OpenAI_response (demo_net status body) body_choice = Inr ''fix: typo''"
  by (simp add: OpenAI_response_def demo_net_def demo_decode_openai_def)

lemma demo_OpenAI:
  "OpenAIProvider_GenerateMessage (demo_net status body_choice) p prompt = Inr ''fix: typo''"
  by (simp add: OpenAIProvider_GenerateMessage_def demo_post demo_response)

lemma demo_gptc_OpenAI:
  "gptc_OpenAIProvider_GenerateMessage (demo_net status body_choice) p prompt model
     = Inr ''fix: typo''"
  by (simp add: gptc_OpenAIProvider_GenerateMessage_def demo_post demo_response)

section \<open>The generate-content client: answers with a 2xx status\<close>

text \<open>
  Claim C1. When the exchange with the server gave a status from 200 to 299 and a body
  that decodes, \<open>GenerateMessage\<close> of the generate-content client
  \<^item> fails with the block reason in the message when the block reason is not empty;
  \<^item> otherwise fails with ``no candidates'' when the list of candidates is empty;
  \<^item> otherwise fails with the finish reason of the first candidate in the message when
    that reason is neither \<open>STOP\<close> nor \<open>MAX_TOKENS\<close>;
  \<^item> otherwise fails when the first candidate has no content parts;
  \<^item> otherwise returns the texts of the parts of the first candidate, concatenated in
    order.
\<close>

theorem Gemini_success_cases:
  assumes "Gemini_roundTrip n p prompt = Inr (status, body)"
    and "200 \<le> status" and "status < 300"
    and "json_Unmarshal_gemini n body = Inr r"
  shows "GoogleGeminiProvider_GenerateMessage n p prompt =
     (if spec_blockReason r \<noteq> [] then
        Inl (Errorf (''gemini prompt blocked due to '' @ spec_blockReason r))
      else
        (case Candidates r of
           [] \<Rightarrow> Inl (Errorf (''no candidates in gemini API response. Body: '' @ body))
         | c # _ \<Rightarrow>
             if FinishReason c \<noteq> ''STOP'' \<and> FinishReason c \<noteq> ''MAX_TOKENS'' then
               Inl (Errorf (''gemini generation finished due to '' @ FinishReason c))
             else if spec_contentParts c = [] then
               Inl (Errorf (''gemini response candidate has no content parts. FinishReason: ''
                      @ FinishReason c))
             else Inr (concat (map Text (spec_contentParts c)))))"
proof -
  have "GoogleGeminiProvider_GenerateMessage n p prompt = Gemini_response n status body"
    using assms(1) by (rule Gemini_after_roundTrip)
  also have "\<dots> =
      (if spec_blockReason r \<noteq> [] then
         Inl (Errorf (''gemini prompt blocked due to '' @ spec_blockReason r))
       else Gemini_candidates body r)"
    using assms(2-4) by (simp add: Gemini_response_def spec_blockReason_def split: option.split)
  finally show ?thesis
    by (simp only: Gemini_candidates_cases)
qed

text \<open>
  The theorem at work: the server answers 200 with two text parts, \<open>hel\<close> and \<open>lo\<close>,
  and the finish reason \<open>STOP\<close>.
\<close>

theorem Gemini_success_cases_witness:
  "Gemini_roundTrip (demo_net 200 body_hello) demo_gemini ''prompt'' = Inr (200, body_hello)
   \<and> (200::int) \<le> 200 \<and> (200::int) < 300
   \<and> json_Unmarshal_gemini (demo_net 200 body_hello) body_hello
       = Inr \<lparr>Candidates = [\<lparr>Candidate_Content = Some \<lparr>Parts = [\<lparr>Text = ''hel''\<rparr>, \<lparr>Text = ''lo''\<rparr>]\<rparr>,
                                FinishReason = ''STOP'', Candidate_SafetyRatings = []\<rparr>],
                PromptFeedback = None\<rparr>
   \<and> GoogleGeminiProvider_GenerateMessage (demo_net 200 body_hello) demo_gemini ''prompt''
       = Inr ''hello''"
proof -
  let ?r = "\<lparr>Candidates = [\<lparr>Candidate_Content = Some \<lparr>Parts = [\<lparr>Text = ''hel''\<rparr>, \<lparr>Text = ''lo''\<rparr>]\<rparr>,
                             FinishReason = ''STOP'', Candidate_SafetyRatings = []\<rparr>],
             PromptFeedback = None\<rparr>"
  have trip: "Gemini_roundTrip (demo_net 200 body_hello) demo_gemini ''prompt'' = Inr (200, body_hello)"
    by (rule demo_roundTrip)
  have dec: "json_Unmarshal_gemini (demo_net 200 body_hello) body_hello = Inr ?r"
    by (simp add: demo_net_def demo_unmarshal_gemini_def)
  have "GoogleGeminiProvider_GenerateMessage (demo_net 200 body_hello) demo_gemini ''prompt''
          = Inr ''hello''"
    using Gemini_success_cases [OF trip _ _ dec]
    by (simp add: spec_blockReason_def spec_contentParts_def)
  with trip dec show ?thesis by simp
qed

section \<open>The generate-content client: answers with another status\<close>

text \<open>
  Claim C8. When the exchange with the server gave a status outside 200 to 299:
  if the body decodes as the error struct with a message that is not empty, the result
  is an error whose text carries that message, with the code and the status of the
  struct; if the body does not decode, or decodes with an empty message, the result is
  the generic error, whose text carries the status code in decimal and the body as it
  was read.
\<close>

theorem Gemini_failure_status:
  assumes "Gemini_roundTrip n p prompt = Inr (status, body)"
    and "status < 200 \<or> 300 \<le> status"
  shows "(\<forall>e. json_Unmarshal_error n body = Inr e \<and> Error_Message (Error e) \<noteq> [] \<longrightarrow>
            GoogleGeminiProvider_GenerateMessage n p prompt =
              Inl (Errorf (''gemini API error ('' @ Itoa (Error_Code (Error e)) @ '' ''
                     @ Error_Status (Error e) @ ''): '' @ Error_Message (Error e))))
       \<and> ((\<forall>e. json_Unmarshal_error n body = Inr e \<longrightarrow> Error_Message (Error e) = []) \<longrightarrow>
            GoogleGeminiProvider_GenerateMessage n p prompt =
              Inl (Errorf (''gemini API request failed with status '' @ Itoa status @ '': ''
                     @ body)))"
proof -
  have "GoogleGeminiProvider_GenerateMessage n p prompt = Gemini_response n status body"
    using assms(1) by (rule Gemini_after_roundTrip)
  then show ?thesis
    using assms(2) by (auto simp add: Gemini_response_def split: sum.split)
qed

text \<open>
  The theorem at work, on both sides: a 404 with a structured error, and a 503 whose
  body is not JSON.
\<close>

theorem Gemini_failure_status_witness:
  "Gemini_roundTrip (demo_net 404 body_not_found) demo_gemini ''prompt'' = Inr (404, body_not_found)
   \<and> GoogleGeminiProvider_GenerateMessage (demo_net 404 body_not_found) demo_gemini ''prompt''
       = Inl (Errorf ''gemini API error (404 NOT_FOUND): model not found'')
   \<and> Gemini_roundTrip (demo_net 503 ''upstream down'') demo_gemini ''prompt''
       = Inr (503, ''upstream down'')
   \<and> GoogleGeminiProvider_GenerateMessage (demo_net 503 ''upstream down'') demo_gemini ''prompt''
       = Inl (Errorf ''gemini API request failed with status 503: upstream down'')"
proof -
  let ?e = "\<lparr>Error = \<lparr>Error_Code = 404, Error_Message = ''model not found'',
                        Error_Status = ''NOT_FOUND''\<rparr>\<rparr>"
  have trip1: "Gemini_roundTrip (demo_net 404 body_not_found) demo_gemini ''prompt''
                 = Inr (404, body_not_found)"
    by (rule demo_roundTrip)
  have trip2: "Gemini_roundTrip (demo_net 503 ''upstream down'') demo_gemini ''prompt''
                 = Inr (503, ''upstream down'')"
    by (rule demo_roundTrip)
  have dec1: "json_Unmarshal_error (demo_net 404 body_not_found) body_not_found = Inr ?e"
    by (simp add: demo_net_def demo_unmarshal_error_def)
  have dec2: "json_Unmarshal_error (demo_net 503 ''upstream down'') ''upstream down''
                = Inl ''invalid character''"
    by (simp add: demo_net_def demo_unmarshal_error_def body_not_found_def)
  have i404: "Itoa 404 = ''404''" and i503: "Itoa 503 = ''503''"
    by (simp_all add: Itoa_def decimal.simps digit_def)
  have one: "GoogleGeminiProvider_GenerateMessage (demo_net 404 body_not_found) demo_gemini ''prompt''
       = Inl (Errorf ''gemini API error (404 NOT_FOUND): model not found'')"
    using Gemini_failure_status [OF trip1] dec1 by (simp add: i404)
  have two: "GoogleGeminiProvider_GenerateMessage (demo_net 503 ''upstream down'') demo_gemini ''prompt''
       = Inl (Errorf ''gemini API request failed with status 503: upstream down'')"
    using Gemini_failure_status [OF trip2] dec2 by (simp add: i503)
  from trip1 trip2 one two show ?thesis by simp
qed

section \<open>The chat-completion client: choices and status\<close>

text \<open>
  Claim C7. In both programs, when the chat-completion client has received a response
  whose body decodes: with an empty list of choices the result is the error
  ``no choices in API response''; with a list that is not empty it is the message
  content of the first choice, as it was decoded.
\<close>

theorem OpenAI_choices:
  "(\<forall>resp r. OpenAI_post n (APIURL p) (OpenAI_APIKey p) (OpenAI_Model p) prompt = Inr resp
       \<and> json_Decode_openai n (Response_Body resp) = Inr r \<longrightarrow>
       OpenAIProvider_GenerateMessage n p prompt =
         (case Choices r of
            [] \<Rightarrow> Inl (Errorf ''no choices in API response'')
          | c # _ \<Rightarrow> Inr (Choice_Content (Message c))))
   \<and> (\<forall>resp r. OpenAI_post n (gptc_APIURL q) (gptc_APIKey q) model prompt = Inr resp
       \<and> json_Decode_openai n (Response_Body resp) = Inr r \<longrightarrow>
       gptc_OpenAIProvider_GenerateMessage n q prompt model =
         (case Choices r of
            [] \<Rightarrow> Inl (Errorf ''no choices in API response'')
          | c # _ \<Rightarrow> Inr (Choice_Content (Message c))))"
  by (simp add: OpenAIProvider_GenerateMessage_def gptc_OpenAIProvider_GenerateMessage_def
        OpenAI_response_cases)

text \<open>
  The theorem at work: one choice in the two-provider program, none in the
  single-provider program.
\<close>

theorem OpenAI_choices_witness:
  "OpenAI_post (demo_net 200 body_choice) (APIURL demo_openai) (OpenAI_APIKey demo_openai)
       (OpenAI_Model demo_openai) ''prompt''
     = Inr \<lparr>StatusCode = 200, Response_Body = body_choice\<rparr>
   \<and> json_Decode_openai (demo_net 200 body_choice) body_choice
       = Inr \<lparr>Choices = [\<lparr>Message = \<lparr>Choice_Content = ''fix: typo''\<rparr>\<rparr>]\<rparr>
   \<and> OpenAIProvider_GenerateMessage (demo_net 200 body_choice) demo_openai ''prompt''
       = Inr ''fix: typo''
   \<and> OpenAI_post (demo_net 200 body_no_choice) (gptc_APIURL demo_gptc) (gptc_APIKey demo_gptc)
       ''o4-mini'' ''prompt''
     = Inr \<lparr>StatusCode = 200, Response_Body = body_no_choice\<rparr>
   \<and> json_Decode_openai (demo_net 200 body_no_choice) body_no_choice = Inr \<lparr>Choices = []\<rparr>
   \<and> gptc_OpenAIProvider_GenerateMessage (demo_net 200 body_no_choice) demo_gptc ''prompt'' ''o4-mini''
       = Inl (Errorf ''no choices in API response'')"
proof -
  have post1: "OpenAI_post (demo_net 200 body_choice) (APIURL demo_openai)
                 (OpenAI_APIKey demo_openai) (OpenAI_Model demo_openai) ''prompt''
               = Inr \<lparr>StatusCode = 200, Response_Body = body_choice\<rparr>"
    by (rule demo_post)
  have dec1: "json_Decode_openai (demo_net 200 body_choice) body_choice
               = Inr \<lparr>Choices = [\<lparr>Message = \<lparr>Choice_Content = ''fix: typo''\<rparr>\<rparr>]\<rparr>"
    by (simp add: demo_net_def demo_decode_openai_def)
  have post2: "OpenAI_post (demo_net 200 body_no_choice) (gptc_APIURL demo_gptc)
                 (gptc_APIKey demo_gptc) ''o4-mini'' ''prompt''
               = Inr \<lparr>StatusCode = 200, Response_Body = body_no_choice\<rparr>"
    by (rule demo_post)
  have dec2: "json_Decode_openai (demo_net 200 body_no_choice) body_no_choice = Inr \<lparr>Choices = []\<rparr>"
    by (simp add: demo_net_def demo_decode_openai_def body_no_choice_def body_choice_def)
  note inst1 = OpenAI_choices [of "demo_net 200 body_choice" demo_openai "''prompt''" demo_gptc "''o4-mini''"]
  note inst2 = OpenAI_choices [of "demo_net 200 body_no_choice" demo_openai "''prompt''" demo_gptc "''o4-mini''"]
  have one: "OpenAIProvider_GenerateMessage (demo_net 200 body_choice) demo_openai ''prompt''
               = Inr ''fix: typo''"
    using inst1 post1 dec1 by simp
  have two: "gptc_OpenAIProvider_GenerateMessage (demo_net 200 body_no_choice) demo_gptc ''prompt''
               ''o4-mini'' = Inl (Errorf ''no choices in API response'')"
    using inst2 post2 dec2 by simp
  from post1 dec1 one post2 dec2 two show ?thesis by simp
qed

text \<open>
  Claim C10. The chat-completion client never reads the status code. In both programs
  the result of \<open>GenerateMessage\<close> stays the same when every response carries another
  status \<open>st\<close>; and whatever the status of the response received, a body that decodes
  with no choice gives the error ``no choices in API response'' and a body that decodes
  with a choice gives the content of the first one.
\<close>

theorem OpenAI_status_unread:
  "OpenAIProvider_GenerateMessage (with_status st n) p prompt
     = OpenAIProvider_GenerateMessage n p prompt
   \<and> gptc_OpenAIProvider_GenerateMessage (with_status st n) q prompt model
     = gptc_OpenAIProvider_GenerateMessage n q prompt model
   \<and> (\<forall>resp r. OpenAI_post n (APIURL p) (OpenAI_APIKey p) (OpenAI_Model p) prompt = Inr resp
        \<and> StatusCode resp = st \<and> json_Decode_openai n (Response_Body resp) = Inr r \<longrightarrow>
        OpenAIProvider_GenerateMessage n p prompt =
          (case Choices r of
             [] \<Rightarrow> Inl (Errorf ''no choices in API response'')
           | c # _ \<Rightarrow> Inr (Choice_Content (Message c))))
   \<and> (\<forall>resp r. OpenAI_post n (gptc_APIURL q) (gptc_APIKey q) model prompt = Inr resp
        \<and> StatusCode resp = st \<and> json_Decode_openai n (Response_Body resp) = Inr r \<longrightarrow>
        gptc_OpenAIProvider_GenerateMessage n q prompt model =
          (case Choices r of
             [] \<Rightarrow> Inl (Errorf ''no choices in API response'')
           | c # _ \<Rightarrow> Inr (Choice_Content (Message c))))"
proof -
  have same: "OpenAIProvider_GenerateMessage (with_status st n) p prompt
                = OpenAIProvider_GenerateMessage n p prompt"
    by (simp add: OpenAIProvider_GenerateMessage_def OpenAI_post_with_status
          OpenAI_response_with_status split: sum.split)
  have same': "gptc_OpenAIProvider_GenerateMessage (with_status st n) q prompt model
                = gptc_OpenAIProvider_GenerateMessage n q prompt model"
    by (simp add: gptc_OpenAIProvider_GenerateMessage_def OpenAI_post_with_status
          OpenAI_response_with_status split: sum.split)
  have res: "\<forall>resp r. OpenAI_post n (APIURL p) (OpenAI_APIKey p) (OpenAI_Model p) prompt = Inr resp
        \<and> StatusCode resp = st \<and> json_Decode_openai n (Response_Body resp) = Inr r \<longrightarrow>
        OpenAIProvider_GenerateMessage n p prompt =
          (case Choices r of
             [] \<Rightarrow> Inl (Errorf ''no choices in API response'')
           | c # _ \<Rightarrow> Inr (Choice_Content (Message c)))"
    by (simp add: OpenAIProvider_GenerateMessage_def OpenAI_response_cases)
  have res': "\<forall>resp r. OpenAI_post n (gptc_APIURL q) (gptc_APIKey q) model prompt = Inr resp
        \<and> StatusCode resp = st \<and> json_Decode_openai n (Response_Body resp) = Inr r \<longrightarrow>
        gptc_OpenAIProvider_GenerateMessage n q prompt model =
          (case Choices r of
             [] \<Rightarrow> Inl (Errorf ''no choices in API response'')
           | c # _ \<Rightarrow> Inr (Choice_Content (Message c)))"
    by (simp add: gptc_OpenAIProvider_GenerateMessage_def OpenAI_response_cases)
  from same same' res res' show ?thesis by blast
qed

text \<open>
  The theorem at work: a 401 whose body is the provider's error object is reported as
  ``no choices'', and a 500 whose body holds a choice returns the choice.
\<close>

theorem OpenAI_status_unread_witness:
  "OpenAI_post (demo_net 401 body_bad_key) (APIURL demo_openai) (OpenAI_APIKey demo_openai)
       (OpenAI_Model demo_openai) ''prompt''
     = Inr \<lparr>StatusCode = 401, Response_Body = body_bad_key\<rparr>
   \<and> json_Decode_openai (demo_net 401 body_bad_key) body_bad_key = Inr \<lparr>Choices = []\<rparr>
   \<and> OpenAIProvider_GenerateMessage (demo_net 401 body_bad_key) demo_openai ''prompt''
       = Inl (Errorf ''no choices in API response'')
   \<and> OpenAI_post (demo_net 500 body_choice) (gptc_APIURL demo_gptc) (gptc_APIKey demo_gptc)
       ''o4-mini'' ''prompt''
     = Inr \<lparr>StatusCode = 500, Response_Body = body_choice\<rparr>
   \<and> gptc_OpenAIProvider_GenerateMessage (demo_net 500 body_choice) demo_gptc ''prompt'' ''o4-mini''
       = Inr ''fix: typo''
   \<and> OpenAIProvider_GenerateMessage (with_status 200 (demo_net 401 body_bad_key)) demo_openai ''prompt''
       = Inl (Errorf ''no choices in API response'')"
proof -
  have post1: "OpenAI_post (demo_net 401 body_bad_key) (APIURL demo_openai)
                 (OpenAI_APIKey demo_openai) (OpenAI_Model demo_openai) ''prompt''
               = Inr \<lparr>StatusCode = 401, Response_Body = body_bad_key\<rparr>"
    by (rule demo_post)
  have dec1: "json_Decode_openai (demo_net 401 body_bad_key) body_bad_key = Inr \<lparr>Choices = []\<rparr>"
    by (simp add: demo_net_def demo_decode_openai_def body_bad_key_def body_choice_def)
  have post2: "OpenAI_post (demo_net 500 body_choice) (gptc_APIURL demo_gptc)
                 (gptc_APIKey demo_gptc) ''o4-mini'' ''prompt''
               = Inr \<lparr>StatusCode = 500, Response_Body = body_choice\<rparr>"
    by (rule demo_post)
  have dec2: "json_Decode_openai (demo_net 500 body_choice) body_choice
               = Inr \<lparr>Choices = [\<lparr>Message = \<lparr>Choice_Content = ''fix: typo''\<rparr>\<rparr>]\<rparr>"
    by (simp add: demo_net_def demo_decode_openai_def)
  note inst1 = OpenAI_status_unread [of 401 "demo_net 401 body_bad_key" demo_openai "''prompt''"
               demo_gptc "''o4-mini''"]
  note inst2 = OpenAI_status_unread [of 500 "demo_net 500 body_choice" demo_openai "''prompt''"
               demo_gptc "''o4-mini''"]
  note inst3 = OpenAI_status_unread [of 200 "demo_net 401 body_bad_key" demo_openai "''prompt''"
               demo_gptc "''o4-mini''"]
  have one: "OpenAIProvider_GenerateMessage (demo_net 401 body_bad_key) demo_openai ''prompt''
               = Inl (Errorf ''no choices in API response'')"
    using inst1 post1 dec1 by simp
  have two: "gptc_OpenAIProvider_GenerateMessage (demo_net 500 body_choice) demo_gptc ''prompt''
               ''o4-mini'' = Inr ''fix: typo''"
    using inst2 post2 dec2 by simp
  have three: "OpenAIProvider_GenerateMessage (with_status 200 (demo_net 401 body_bad_key))
                 demo_openai ''prompt'' = Inl (Errorf ''no choices in API response'')"
    using inst3 one by simp
  from post1 dec1 one post2 two three show ?thesis by simp
qed

section \<open>The model of the Google provider\<close>

text \<open>
  Claim C9. In the two-provider program, with the Google provider selected and its API
  key set, \<open>NewProvider\<close> gives the provider the configured model only when that model
  is neither empty nor \<open>o4-mini\<close>, the default of the chat-completion provider; in every
  other case, the default value of the model flag among them, the provider is built with
  \<open>gemini-2.5-pro-exp-03-25\<close>. Nothing is written about the replacement: with
  \<open>--provider=google\<close>, parsing the flags writes what the mode flags make it write
  and nothing else, and \<open>NewProvider\<close> writes only when it ends the run.
\<close>

theorem Google_model_choice:
  assumes "Provider cfg = Google" and "environ ''GEMINI_API_KEY'' = Some key" and "key \<noteq> []"
  shows "NewProvider environ cfg =
           Inr (GoogleGeminiProvider
                  \<lparr>Gemini_APIKey = key, BaseURL = ''https://generativelanguage.googleapis.com'',
                   Gemini_Model = (if Model cfg \<noteq> [] \<and> Model cfg \<noteq> ''o4-mini'' then Model cfg
                                   else ''gemini-2.5-pro-exp-03-25'')\<rparr>)
       \<and> (\<not> helpFlag f \<and> providerFlag f = ''google'' \<longrightarrow>
            parseFlags f =
              (Inr \<lparr>Model = modelFlag f, Mode = fst (parseMode f), Provider = Google\<rparr>,
               snd (parseMode f)))
       \<and> (\<not> helpFlag f \<and> providerFlag f = ''google'' \<and> modelFlag f = defaultGPTModel \<longrightarrow>
            (\<exists>c. fst (parseFlags f) = Inr c \<and>
               NewProvider environ c =
                 Inr (GoogleGeminiProvider
                        \<lparr>Gemini_APIKey = key,
                         BaseURL = ''https://generativelanguage.googleapis.com'',
                         Gemini_Model = ''gemini-2.5-pro-exp-03-25''\<rparr>)))"
proof -
  have new: "NewProvider environ c =
           Inr (GoogleGeminiProvider
                  \<lparr>Gemini_APIKey = key, BaseURL = ''https://generativelanguage.googleapis.com'',
                   Gemini_Model = (if Model c \<noteq> [] \<and> Model c \<noteq> ''o4-mini'' then Model c
                                   else ''gemini-2.5-pro-exp-03-25'')\<rparr>)"
    if "Provider c = Google" for c
    using that assms(2,3)
    by (simp add: NewProvider_def os_LookupEnv_def Google_def OpenAI_def defaultGPTModel_def
          defaultGeminiModel_def)
  have parse: "parseFlags f =
              (Inr \<lparr>Model = modelFlag f, Mode = fst (parseMode f), Provider = Google\<rparr>,
               snd (parseMode f))"
    if "\<not> helpFlag f" and "providerFlag f = ''google''"
    using that
    by (simp add: parseFlags_def ProviderEnumFromString_def defaultProvider_def OpenAI_def
          Google_def split: prod.split)
  have both: "\<exists>c. fst (parseFlags f) = Inr c \<and>
               NewProvider environ c =
                 Inr (GoogleGeminiProvider
                        \<lparr>Gemini_APIKey = key,
                         BaseURL = ''https://generativelanguage.googleapis.com'',
                         Gemini_Model = ''gemini-2.5-pro-exp-03-25''\<rparr>)"
    if "\<not> helpFlag f" and "providerFlag f = ''google''" and "modelFlag f = defaultGPTModel"
    using parse [OF that(1,2)] that(3)
      new [of "\<lparr>Model = modelFlag f, Mode = fst (parseMode f), Provider = Google\<rparr>"]
    by (simp add: defaultGPTModel_def)
  from new [OF assms(1)] parse both show ?thesis by blast
qed

text \<open>
  The theorem at work: \<open>--provider=google\<close> with no model flag, so that the model is
  the flag's default \<open>o4-mini\<close>.
\<close>

theorem Google_model_choice_witness:
  "Provider \<lparr>Model = ''o4-mini'', Mode = ModeCommit, Provider = Google\<rparr> = Google
   \<and> demo_environ ''GEMINI_API_KEY'' = Some ''g-1'' \<and> ''g-1'' \<noteq> []
   \<and> NewProvider demo_environ \<lparr>Model = ''o4-mini'', Mode = ModeCommit, Provider = Google\<rparr>
       = Inr (GoogleGeminiProvider
                \<lparr>Gemini_APIKey = ''g-1'', BaseURL = ''https://generativelanguage.googleapis.com'',
                 Gemini_Model = ''gemini-2.5-pro-exp-03-25''\<rparr>)
   \<and> parseFlags (demo_flags\<lparr>providerFlag := ''google''\<rparr>)
       = (Inr \<lparr>Model = ''o4-mini'', Mode = ModeCommit, Provider = Google\<rparr>, [])"
proof -
  let ?cfg = "\<lparr>Model = ''o4-mini'', Mode = ModeCommit, Provider = Google\<rparr>"
  let ?f = "demo_flags\<lparr>providerFlag := ''google''\<rparr>"
  have prov: "Provider ?cfg = Google" by simp
  have key: "demo_environ ''GEMINI_API_KEY'' = Some ''g-1''"
    by (simp add: demo_environ_def)
  have ne: "''g-1'' \<noteq> []" by simp
  have flags: "\<not> helpFlag ?f \<and> providerFlag ?f = ''google''"
    by (simp add: demo_flags_def)
  have mode: "parseMode ?f = (ModeCommit, [])"
    by (simp add: parseMode_def demo_flags_def)
  have model: "modelFlag ?f = ''o4-mini''"
    by (simp add: demo_flags_def defaultGPTModel_def)
  from Google_model_choice [of ?cfg demo_environ "''g-1''" ?f, OF prov key ne] flags mode model prov key
  show ?thesis by simp
qed

section \<open>The mode flags\<close>

text \<open>
  Claim C6. In both programs, when the help flag is not set, parsing the flags gives a
  configuration whose mode is \<open>pr\<close> when only the PR flag is set and \<open>commit\<close> in the
  three other cases; the warning about both flags is written exactly when both are set.
\<close>

theorem mode_of_flags:
  assumes "\<not> helpFlag f"
  shows "(\<exists>cfg. fst (parseFlags f) = Inr cfg
            \<and> Mode cfg = (if prFlag f \<and> \<not> commitFlag f then ModePR else ModeCommit))
       \<and> (\<exists>cfg. fst (gptc_parseFlags f) = Inr cfg
            \<and> Mode cfg = (if prFlag f \<and> \<not> commitFlag f then ModePR else ModeCommit))
       \<and> (Stderr (''[WARN] Both --pr and --cm flags specified. Using --cm mode.'' @ NL)
             \<in> set (snd (parseFlags f)) \<longleftrightarrow> prFlag f \<and> commitFlag f)
       \<and> (Stderr (''[WARN] Both --pr and --cm flags specified. Using --cm mode.'' @ NL)
             \<in> set (snd (gptc_parseFlags f)) \<longleftrightarrow> prFlag f \<and> commitFlag f)
       \<and> ModePR \<noteq> ModeCommit"
  using assms
  by (auto simp add: parseFlags_def gptc_parseFlags_def parseMode_def ProviderEnumFromString_def
        defaultProvider_def OpenAI_def Google_def ModePR_def ModeCommit_def Let_def
        split: prod.split)

text \<open>The theorem at work: \<open>--pr --cm\<close>.\<close>

theorem mode_of_flags_witness:
  "\<not> helpFlag (demo_flags\<lparr>prFlag := True, commitFlag := True\<rparr>)
   \<and> parseFlags (demo_flags\<lparr>prFlag := True, commitFlag := True\<rparr>)
       = (Inr \<lparr>Model = ''o4-mini'', Mode = ''commit'', Provider = ''openai''\<rparr>,
          [Stderr (''[WARN] Both --pr and --cm flags specified. Using --cm mode.'' @ NL)])
   \<and> (\<exists>cfg. fst (gptc_parseFlags (demo_flags\<lparr>prFlag := True, commitFlag := True\<rparr>)) = Inr cfg
         \<and> Mode cfg = ModeCommit)"
proof -
  let ?f = "demo_flags\<lparr>prFlag := True, commitFlag := True\<rparr>"
  have nohelp: "\<not> helpFlag ?f"
    by (simp add: demo_flags_def)
  have run: "parseFlags ?f
       = (Inr \<lparr>Model = ''o4-mini'', Mode = ''commit'', Provider = ''openai''\<rparr>,
          [Stderr (''[WARN] Both --pr and --cm flags specified. Using --cm mode.'' @ NL)])"
    by (simp add: parseFlags_def parseMode_def ProviderEnumFromString_def demo_flags_def
          defaultProvider_def defaultGPTModel_def OpenAI_def ModeCommit_def)
  from mode_of_flags [OF nohelp] nohelp run show ?thesis
    by (simp add: demo_flags_def)
qed

section \<open>The diff reader\<close>

text \<open>
  Claim C3. When standard input is not a character device, reading it succeeds and what
  was read does not trim to the empty string, \<open>getGitDiff\<close> returns what was read,
  trimmed, and runs no command: it writes nothing and runs nothing, whatever running
  \<open>git\<close> would have given.
\<close>

theorem piped_diff:
  assumes "Stdin_Stat os = Some mode" and "mode AND ModeCharDevice = 0"
    and "os_ReadFile os (Stdin_Name os) = Inr content" and "TrimSpace content \<noteq> []"
  shows "getGitDiff (os\<lparr>cmd_Run := git\<rparr>) = (Inr (TrimSpace content), [])"
  using assms by (simp add: getGitDiff_def)

text \<open>
  The theorem at work: a diff on the pipe, padded with white space, in a directory
  where \<open>git\<close> fails.
\<close>

theorem piped_diff_witness:
  "Stdin_Stat (demo_proc ('' diff --git a/x b/x'' @ NL) ([], None)) = Some ModeNamedPipe
   \<and> ModeNamedPipe AND ModeCharDevice = 0
   \<and> TrimSpace ('' diff --git a/x b/x'' @ NL) = ''diff --git a/x b/x''
   \<and> getGitDiff (demo_proc ('' diff --git a/x b/x'' @ NL) ([], Some ''exit status 129''))
       = (Inr ''diff --git a/x b/x'', [])"
proof -
  let ?os = "demo_proc ('' diff --git a/x b/x'' @ NL) ([], None)"
  have stat: "Stdin_Stat ?os = Some ModeNamedPipe"
    by (simp add: demo_proc_def)
  have read: "os_ReadFile ?os (Stdin_Name ?os) = Inr ('' diff --git a/x b/x'' @ NL)"
    by (simp add: demo_proc_def)
  have trim: "TrimSpace ('' diff --git a/x b/x'' @ NL) \<noteq> []"
    by (simp only: TrimSpace_demo) simp
  have upd: "?os\<lparr>cmd_Run := (\<lambda>_. ([], Some ''exit status 129''))\<rparr>
               = demo_proc ('' diff --git a/x b/x'' @ NL) ([], Some ''exit status 129'')"
    by (simp add: demo_proc_def)
  have "getGitDiff (demo_proc ('' diff --git a/x b/x'' @ NL) ([], Some ''exit status 129''))
          = (Inr ''diff --git a/x b/x'', [])"
    using piped_diff [OF stat pipe_mode read trim, of "\<lambda>_. ([], Some ''exit status 129'')"]
    by (simp only: upd TrimSpace_demo)
  with stat pipe_mode TrimSpace_demo show ?thesis by simp
qed

text \<open>
  Claim C4, as the code has it. When standard input is a character device, or is read
  and trims to the empty string, \<open>getGitDiff\<close> runs \<open>git diff --staged\<close>. When that
  command runs without error and its output trims to the empty string, the result is
  the error ``no staged changes found''; when the command fails, the result is the error
  ``failed to get git diff'' with the command's error, whatever its output.
\<close>

theorem staged_fallback:
  assumes "Stdin_Stat os = Some mode"
    and "mode AND ModeCharDevice \<noteq> 0
         \<or> (os_ReadFile os (Stdin_Name os) = Inr content \<and> TrimSpace content = [])"
  shows "Run [''git'', ''diff'', ''--staged''] \<in> set (snd (getGitDiff os))
       \<and> (\<forall>out. cmd_Run os [''git'', ''diff'', ''--staged''] = (out, None) \<and> TrimSpace out = [] \<longrightarrow>
            fst (getGitDiff os) = Inl (Errorf ''no staged changes found''))
       \<and> (\<forall>out err. cmd_Run os [''git'', ''diff'', ''--staged''] = (out, Some err) \<longrightarrow>
            fst (getGitDiff os) = Inl (Errorf (''failed to get git diff: '' @ err)))"
proof -
  have "getGitDiff os = stagedDiff os"
    using assms by (auto simp add: getGitDiff_def)
  then show ?thesis
    by (auto simp add: stagedDiff_def Let_def split: prod.split option.split)
qed

text \<open>
  The theorem at work: a pipe that holds only white space, and nothing staged.
\<close>

theorem staged_fallback_witness:
  "Stdin_Stat (demo_proc ('' '' @ NL) (NL, None)) = Some ModeNamedPipe
   \<and> os_ReadFile (demo_proc ('' '' @ NL) (NL, None)) (Stdin_Name (demo_proc ('' '' @ NL) (NL, None)))
       = Inr ('' '' @ NL)
   \<and> TrimSpace ('' '' @ NL) = []
   \<and> Run [''git'', ''diff'', ''--staged''] \<in> set (snd (getGitDiff (demo_proc ('' '' @ NL) (NL, None))))
   \<and> fst (getGitDiff (demo_proc ('' '' @ NL) (NL, None))) = Inl (Errorf ''no staged changes found'')"
proof -
  let ?os = "demo_proc ('' '' @ NL) (NL, None)"
  have stat: "Stdin_Stat ?os = Some ModeNamedPipe"
    by (simp add: demo_proc_def)
  have read: "os_ReadFile ?os (Stdin_Name ?os) = Inr ('' '' @ NL)"
    by (simp add: demo_proc_def)
  have empty: "ModeNamedPipe AND ModeCharDevice \<noteq> 0
         \<or> (os_ReadFile ?os (Stdin_Name ?os) = Inr ('' '' @ NL) \<and> TrimSpace ('' '' @ NL) = [])"
    using read TrimSpace_blank by blast
  have git: "cmd_Run ?os [''git'', ''diff'', ''--staged''] = (NL, None)"
    by (simp add: demo_proc_def)
  have nl: "TrimSpace NL = []"
    by code_simp
  from staged_fallback [OF stat empty] git nl
  have "Run [''git'', ''diff'', ''--staged''] \<in> set (snd (getGitDiff ?os))
        \<and> fst (getGitDiff ?os) = Inl (Errorf ''no staged changes found'')"
    by blast
  with stat read TrimSpace_blank show ?thesis by blast
qed

text \<open>
  Claim C4 as it is written fails where the command fails: in a directory that is no
  repository, \<open>git diff --staged\<close> prints nothing on standard output and exits with
  status 129. The output trims to the empty string, and the error does not speak of
  staged changes.
\<close>

theorem staged_fallback_counterexample:
  "Stdin_Stat (demo_tty ([], Some ''exit status 129'')) = Some (ModeDevice OR ModeCharDevice)
   \<and> (ModeDevice OR ModeCharDevice) AND ModeCharDevice \<noteq> 0
   \<and> TrimSpace (fst (cmd_Run (demo_tty ([], Some ''exit status 129''))
                       [''git'', ''diff'', ''--staged''])) = []
   \<and> fst (getGitDiff (demo_tty ([], Some ''exit status 129'')))
       = Inl (Errorf ''failed to get git diff: exit status 129'')
   \<and> \<not> sublist ''no staged changes'' ''failed to get git diff: exit status 129''"
proof -
  have far: "\<not> sublist ''no staged changes'' ''failed to get git diff: exit status 129''"
    by code_simp
  have run: "fst (getGitDiff (demo_tty ([], Some ''exit status 129'')))
       = Inl (Errorf ''failed to get git diff: exit status 129'')"
    using tty_mode by (simp add: getGitDiff_def demo_tty_def stagedDiff_def)
  show ?thesis
    using far run tty_mode TrimSpace_Nil by (simp add: demo_tty_def)
qed

section \<open>The prompt\<close>

text \<open>
  Claim C5. Each template is a fixed text followed by the verb \<open>%s\<close>, and formatting it
  puts the diff, as it is, in the place of the verb. The text of the commit template
  forbids code fences; the text of the PR template asks for German, for markdown, and
  for a title, what changed, why, and testing considerations. In both programs
  \<open>generateMessage\<close> hands the provider the formatted commit template in mode
  \<open>commit\<close> and the formatted PR template in mode \<open>pr\<close>, and in every other mode it
  fails with ``invalid mode'' and the mode, before any provider is built.
\<close>

theorem prompt_by_mode:
  "(\<exists>text. commitPromptTemplate = text @ ''%s''
       \<and> sublist ''Do not use ```'' text
       \<and> (\<forall>d. Sprintf commitPromptTemplate [d] = text @ d))
   \<and> (\<exists>text. prPromptTemplate = text @ ''%s''
       \<and> sublist ''Do not use ```'' text
       \<and> sublist ''Write the description in GERMAN'' text
       \<and> sublist ''Format with markdown'' text
       \<and> sublist ''A clear title'' text
       \<and> sublist ''What changes were made'' text
       \<and> sublist ''Why these changes were necessary'' text
       \<and> sublist ''Any testing considerations'' text
       \<and> (\<forall>d. Sprintf prPromptTemplate [d] = text @ d))
   \<and> (Mode cfg = ModeCommit \<longrightarrow>
        generateMessage environ n cfg gitDiff =
          (case NewProvider environ cfg of
             Inl e \<Rightarrow> Inl e
           | Inr provider \<Rightarrow> GenerateMessage n provider (Sprintf commitPromptTemplate [gitDiff]))
        \<and> gptc_generateMessage environ n cfg gitDiff =
          (case gptc_NewProvider environ cfg of
             Inl (Errorf err) \<Rightarrow> Inl (Errorf (''failed to create provider: '' @ err))
           | Inl e \<Rightarrow> Inl e
           | Inr provider \<Rightarrow>
               gptc_OpenAIProvider_GenerateMessage n provider
                 (Sprintf commitPromptTemplate [gitDiff]) (Model cfg)))
   \<and> (Mode cfg = ModePR \<longrightarrow>
        generateMessage environ n cfg gitDiff =
          (case NewProvider environ cfg of
             Inl e \<Rightarrow> Inl e
           | Inr provider \<Rightarrow> GenerateMessage n provider (Sprintf prPromptTemplate [gitDiff]))
        \<and> gptc_generateMessage environ n cfg gitDiff =
          (case gptc_NewProvider environ cfg of
             Inl (Errorf err) \<Rightarrow> Inl (Errorf (''failed to create provider: '' @ err))
           | Inl e \<Rightarrow> Inl e
           | Inr provider \<Rightarrow>
               gptc_OpenAIProvider_GenerateMessage n provider
                 (Sprintf prPromptTemplate [gitDiff]) (Model cfg)))
   \<and> (Mode cfg \<noteq> ModeCommit \<and> Mode cfg \<noteq> ModePR \<longrightarrow>
        generateMessage environ n cfg gitDiff = Inl (Errorf (''invalid mode: '' @ Mode cfg))
        \<and> gptc_generateMessage environ n cfg gitDiff = Inl (Errorf (''invalid mode: '' @ Mode cfg)))"
proof -
  let ?commit = "''Do not use ```.'' @ NL
     @ '' Create a CONVENTIONAL commit message for this git diff with the structure: <type>[optional scope]: <description>'' @ NL
     @ ''Ignore formatting and whitespace changes and focus on the big picture.'' @ NL"
  let ?pr = "''Do not use ```.'' @ NL
     @ ''Create a pull request description for these changes.'' @ NL
     @ ''Include: 1) A clear title, 2) What changes were made, 3) Why these changes were necessary,'' @ NL
     @ ''and 4) Any testing considerations.'' @ NL
     @ ''Ignore formatting and whitespace changes and focus on the big picture.'' @ NL
     @ ''Write the description in GERMAN!!!'' @ NL
     @ ''Format with markdown:'' @ NL"
  have c1: "commitPromptTemplate = ?commit @ ''%s''"
    by (simp add: commitPromptTemplate_def)
  have c2: "sublist ''Do not use ```'' ?commit"
    by code_simp
  have c3: "\<forall>d. Sprintf commitPromptTemplate [d] = ?commit @ d"
    by (simp add: commit_prompt)
  have p1: "prPromptTemplate = ?pr @ ''%s''"
    by (simp add: prPromptTemplate_def)
  have p2: "sublist ''Do not use ```'' ?pr" "sublist ''Write the description in GERMAN'' ?pr"
    "sublist ''Format with markdown'' ?pr" "sublist ''A clear title'' ?pr"
    "sublist ''What changes were made'' ?pr" "sublist ''Why these changes were necessary'' ?pr"
    "sublist ''Any testing considerations'' ?pr"
    by code_simp+
  have p3: "\<forall>d. Sprintf prPromptTemplate [d] = ?pr @ d"
    by (simp add: pr_prompt)
  have commit: "\<exists>text. commitPromptTemplate = text @ ''%s''
       \<and> sublist ''Do not use ```'' text
       \<and> (\<forall>d. Sprintf commitPromptTemplate [d] = text @ d)"
    using c1 c2 c3 by blast
  have pr: "\<exists>text. prPromptTemplate = text @ ''%s''
       \<and> sublist ''Do not use ```'' text
       \<and> sublist ''Write the description in GERMAN'' text
       \<and> sublist ''Format with markdown'' text
       \<and> sublist ''A clear title'' text
       \<and> sublist ''What changes were made'' text
       \<and> sublist ''Why these changes were necessary'' text
       \<and> sublist ''Any testing considerations'' text
       \<and> (\<forall>d. Sprintf prPromptTemplate [d] = text @ d)"
    using p1 p2 p3 by blast
  have ne: "ModePR \<noteq> ModeCommit"
    by (simp add: ModePR_def ModeCommit_def)
  have m1: "Mode cfg = ModeCommit \<longrightarrow>
        generateMessage environ n cfg gitDiff =
          (case NewProvider environ cfg of
             Inl e \<Rightarrow> Inl e
           | Inr provider \<Rightarrow> GenerateMessage n provider (Sprintf commitPromptTemplate [gitDiff]))
        \<and> gptc_generateMessage environ n cfg gitDiff =
          (case gptc_NewProvider environ cfg of
             Inl (Errorf err) \<Rightarrow> Inl (Errorf (''failed to create provider: '' @ err))
           | Inl e \<Rightarrow> Inl e
           | Inr provider \<Rightarrow>
               gptc_OpenAIProvider_GenerateMessage n provider
                 (Sprintf commitPromptTemplate [gitDiff]) (Model cfg))"
    by (simp add: generateMessage_def gptc_generateMessage_def split: sum.split error.split)
  have m2: "Mode cfg = ModePR \<longrightarrow>
        generateMessage environ n cfg gitDiff =
          (case NewProvider environ cfg of
             Inl e \<Rightarrow> Inl e
           | Inr provider \<Rightarrow> GenerateMessage n provider (Sprintf prPromptTemplate [gitDiff]))
        \<and> gptc_generateMessage environ n cfg gitDiff =
          (case gptc_NewProvider environ cfg of
             Inl (Errorf err) \<Rightarrow> Inl (Errorf (''failed to create provider: '' @ err))
           | Inl e \<Rightarrow> Inl e
           | Inr provider \<Rightarrow>
               gptc_OpenAIProvider_GenerateMessage n provider
                 (Sprintf prPromptTemplate [gitDiff]) (Model cfg))"
    using ne by (simp add: generateMessage_def gptc_generateMessage_def split: sum.split error.split)
  have m3: "Mode cfg \<noteq> ModeCommit \<and> Mode cfg \<noteq> ModePR \<longrightarrow>
        generateMessage environ n cfg gitDiff = Inl (Errorf (''invalid mode: '' @ Mode cfg))
        \<and> gptc_generateMessage environ n cfg gitDiff = Inl (Errorf (''invalid mode: '' @ Mode cfg))"
    by (simp add: generateMessage_def gptc_generateMessage_def)
  from commit pr m1 m2 m3 show ?thesis by blast
qed

text \<open>
  The theorem at work: a diff that holds a verb of its own is copied as it is; the mode
  \<open>commit\<close> reaches the provider; the mode \<open>release\<close> is refused.
\<close>

theorem prompt_by_mode_witness:
  "(\<exists>text. Sprintf commitPromptTemplate [''+ 100%s done''] = text @ ''+ 100%s done'')
   \<and> generateMessage demo_environ (demo_net 200 body_choice)
        \<lparr>Model = ''o4-mini'', Mode = ''commit'', Provider = ''openai''\<rparr> ''+ 100%s done''
       = Inr ''fix: typo''
   \<and> generateMessage demo_environ (demo_net 200 body_choice)
        \<lparr>Model = ''o4-mini'', Mode = ''release'', Provider = ''openai''\<rparr> ''+ 100%s done''
       = Inl (Errorf ''invalid mode: release'')
   \<and> gptc_generateMessage demo_environ (demo_net 200 body_choice)
        \<lparr>Model = ''o4-mini'', Mode = ''release'', Provider = ''openai''\<rparr> ''+ 100%s done''
       = Inl (Errorf ''invalid mode: release'')"
proof -
  let ?n = "demo_net 200 body_choice"
  let ?ok = "\<lparr>Model = ''o4-mini'', Mode = ''commit'', Provider = ''openai''\<rparr>"
  let ?bad = "\<lparr>Model = ''o4-mini'', Mode = ''release'', Provider = ''openai''\<rparr>"
  note inst1 = prompt_by_mode [of ?ok demo_environ ?n "''+ 100%s done''"]
  note inst2 = prompt_by_mode [of ?bad demo_environ ?n "''+ 100%s done''"]
  have new: "NewProvider demo_environ ?ok = Inr (OpenAIProvider demo_openai)"
    by (simp add: NewProvider_def os_LookupEnv_def demo_environ_def demo_openai_def OpenAI_def
          defaultGPTModel_def)
  have gen: "OpenAIProvider_GenerateMessage ?n demo_openai prompt = Inr ''fix: typo''" for prompt
    by (rule demo_OpenAI)
  have one: "\<exists>text. Sprintf commitPromptTemplate [''+ 100%s done''] = text @ ''+ 100%s done''"
    using inst1 by blast
  have two: "generateMessage demo_environ ?n ?ok ''+ 100%s done'' = Inr ''fix: typo''"
    using inst1 new gen by (simp add: ModeCommit_def)
  have three: "generateMessage demo_environ ?n ?bad ''+ 100%s done'' = Inl (Errorf ''invalid mode: release'')"
    and four: "gptc_generateMessage demo_environ ?n ?bad ''+ 100%s done'' = Inl (Errorf ''invalid mode: release'')"
    using inst2 by (simp_all add: ModeCommit_def ModePR_def)
  from one two three four show ?thesis by blast
qed

section \<open>A provider name that is not known\<close>

text \<open>
  Claim C2, as the code has it. The two programs differ.

  In the two-provider program a name that is neither \<open>openai\<close> nor \<open>google\<close> becomes
  the default provider, and unless \<open>--help\<close> ends the run first a warning with the name
  is written to standard error. From there on the run is the run with the default
  provider: the same configuration, the same outcome, and the same events in the same
  order, the generated message on standard output among them, but for what
  \<open>ProviderEnumFromString\<close> has written about the name, which comes right after the
  events of flag parsing.

  In the single-provider program such a name stays in the configuration and flag
  parsing writes nothing about it. \<open>NewProvider\<close> returns the error ``unsupported
  provider'' with the name, \<open>generateMessage\<close> wraps it in either mode, and a run that
  has its diff ends there, fatally, having written only what the mode flags and the diff
  reader write.
\<close>

theorem unknown_provider:
  assumes "s \<noteq> ''openai''" and "s \<noteq> ''google''"
  shows "fst (ProviderEnumFromString s) = defaultProvider
       \<and> ''[WARN] invalid provider: '' @ s \<in> set (snd (ProviderEnumFromString s))
       \<and> (helpFlag f \<longrightarrow>
            parseFlags (f\<lparr>providerFlag := s\<rparr>) = parseFlags (f\<lparr>providerFlag := defaultProvider\<rparr>)
            \<and> main environ os n (f\<lparr>providerFlag := s\<rparr>)
                = main environ os n (f\<lparr>providerFlag := defaultProvider\<rparr>))
       \<and> (\<not> helpFlag f \<longrightarrow>
            parseFlags (f\<lparr>providerFlag := s\<rparr>)
              = (fst (parseFlags (f\<lparr>providerFlag := defaultProvider\<rparr>)),
                 snd (parseFlags (f\<lparr>providerFlag := defaultProvider\<rparr>))
                   @ map Stderr (snd (ProviderEnumFromString s))))
       \<and> fst (main environ os n (f\<lparr>providerFlag := s\<rparr>))
           = fst (main environ os n (f\<lparr>providerFlag := defaultProvider\<rparr>))
       \<and> (\<not> helpFlag f \<longrightarrow>
            (\<exists>rest. snd (main environ os n (f\<lparr>providerFlag := defaultProvider\<rparr>))
                        = snd (parseFlags (f\<lparr>providerFlag := defaultProvider\<rparr>)) @ rest
                    \<and> snd (main environ os n (f\<lparr>providerFlag := s\<rparr>))
                        = snd (parseFlags (f\<lparr>providerFlag := defaultProvider\<rparr>))
                            @ map Stderr (snd (ProviderEnumFromString s)) @ rest))
       \<and> (\<forall>m. Stdout m \<in> set (snd (main environ os n (f\<lparr>providerFlag := s\<rparr>)))
              \<longleftrightarrow> Stdout m \<in> set (snd (main environ os n (f\<lparr>providerFlag := defaultProvider\<rparr>))))
       \<and> gptc_parseFlags (f\<lparr>providerFlag := s\<rparr>)
           = (if helpFlag f then (Inl Exit0, [Usage])
              else (Inr \<lparr>Model = modelFlag f, Mode = fst (parseMode f), Provider = s\<rparr>,
                    snd (parseMode f)))
       \<and> gptc_NewProvider environ (cfg\<lparr>Provider := s\<rparr>)
           = Inl (Errorf (''unsupported provider: '' @ s))
       \<and> (Mode cfg = ModeCommit \<or> Mode cfg = ModePR \<longrightarrow>
            gptc_generateMessage environ n (cfg\<lparr>Provider := s\<rparr>) gitDiff
              = Inl (Errorf (''failed to create provider: unsupported provider: '' @ s)))
       \<and> (\<not> helpFlag f \<longrightarrow>
            (\<forall>gitDiff evs. getGitDiff os = (Inr gitDiff, evs) \<longrightarrow>
               gptc_main environ os n (f\<lparr>providerFlag := s\<rparr>)
                 = (Inl (Fatal (''Error generating message:failed to create provider: unsupported provider: '' @ s)),
                    snd (parseMode f) @ evs)))"
proof -
  let ?fs = "f\<lparr>providerFlag := s\<rparr>"
  let ?fd = "f\<lparr>providerFlag := defaultProvider\<rparr>"
  let ?W = "map Stderr (snd (ProviderEnumFromString s))"
  have enum: "ProviderEnumFromString s =
                (OpenAI, [''[WARN] invalid provider: '' @ s, ''[INFO] defaulting to provider: google''])"
    using assms by (simp add: ProviderEnumFromString_def Google_def)
  have dflt: "ProviderEnumFromString defaultProvider = (OpenAI, [])"
    by (simp add: ProviderEnumFromString_def defaultProvider_def OpenAI_def)
  have a: "fst (ProviderEnumFromString s) = defaultProvider"
    by (simp add: enum defaultProvider_def)
  have b: "''[WARN] invalid provider: '' @ s \<in> set (snd (ProviderEnumFromString s))"
    by (simp add: enum)
  have ph: "parseFlags ?fs = parseFlags ?fd" if "helpFlag f"
    using that by (simp add: parseFlags_def dflt split: prod.split)
  have mh: "main environ os n ?fs = main environ os n ?fd" if "helpFlag f"
    using ph [OF that] by (simp add: main_def)
  have pd: "parseFlags ?fd
              = (Inr \<lparr>Model = modelFlag f, Mode = fst (parseMode f), Provider = OpenAI\<rparr>,
                 snd (parseMode f))" if "\<not> helpFlag f"
    using that by (simp add: parseFlags_def dflt parseMode_def split: prod.split)
  have ps: "parseFlags ?fs
              = (Inr \<lparr>Model = modelFlag f, Mode = fst (parseMode f), Provider = OpenAI\<rparr>,
                 snd (parseMode f) @ ?W)" if "\<not> helpFlag f"
    using that by (simp add: parseFlags_def dflt enum parseMode_def split: prod.split)
  have c: "parseFlags ?fs = (fst (parseFlags ?fd), snd (parseFlags ?fd) @ ?W)" if "\<not> helpFlag f"
    using pd [OF that] ps [OF that] by simp
  have ev: "\<exists>rest. snd (main environ os n ?fd) = snd (parseFlags ?fd) @ rest
                 \<and> snd (main environ os n ?fs) = snd (parseFlags ?fd) @ ?W @ rest"
    if "\<not> helpFlag f"
    unfolding main_def pd [OF that] ps [OF that]
    by (auto simp add: Let_def split: prod.split sum.split error.split)
  have e: "fst (main environ os n ?fs) = fst (main environ os n ?fd)"
  proof (cases "helpFlag f")
    case True
    then show ?thesis by (simp add: mh)
  next
    case False
    show ?thesis
      unfolding main_def pd [OF False] ps [OF False]
      by (auto simp add: Let_def split: prod.split sum.split error.split)
  qed
  have out: "Stdout m \<in> set (snd (main environ os n ?fs))
              \<longleftrightarrow> Stdout m \<in> set (snd (main environ os n ?fd))" for m
  proof (cases "helpFlag f")
    case True
    then show ?thesis by (simp add: mh)
  next
    case False
    from ev [OF False] obtain rest
      where "snd (main environ os n ?fd) = snd (parseFlags ?fd) @ rest"
        and "snd (main environ os n ?fs) = snd (parseFlags ?fd) @ ?W @ rest"
      by blast
    then show ?thesis by auto
  qed
  have gp: "gptc_parseFlags ?fs
           = (if helpFlag f then (Inl Exit0, [Usage])
              else (Inr \<lparr>Model = modelFlag f, Mode = fst (parseMode f), Provider = s\<rparr>,
                    snd (parseMode f)))"
    by (simp add: gptc_parseFlags_def parseMode_def split: prod.split)
  have g: "gptc_NewProvider environ (cfg\<lparr>Provider := s\<rparr>)
           = Inl (Errorf (''unsupported provider: '' @ s))" for cfg
    using assms(1) by (simp add: gptc_NewProvider_def)
  have gm: "gptc_generateMessage environ n (cfg\<lparr>Provider := s\<rparr>) gitDiff
              = Inl (Errorf (''failed to create provider: unsupported provider: '' @ s))"
    if "Mode cfg = ModeCommit \<or> Mode cfg = ModePR" for cfg gitDiff
    using that g [of cfg] by (auto simp add: gptc_generateMessage_def)
  have mode: "fst (parseMode f) = ModeCommit \<or> fst (parseMode f) = ModePR"
    by (simp add: parseMode_def)
  have h: "gptc_main environ os n ?fs
             = (Inl (Fatal (''Error generating message:failed to create provider: unsupported provider: '' @ s)),
                snd (parseMode f) @ evs)"
    if "\<not> helpFlag f" and "getGitDiff os = (Inr gitDiff, evs)" for gitDiff evs
    using that gp
      gm [of "\<lparr>Model = modelFlag f, Mode = fst (parseMode f), Provider = s\<rparr>" gitDiff] mode
    by (simp add: gptc_main_def)
  from a b ph mh c e ev out gp g gm h show ?thesis by blast
qed

text \<open>The theorem at work: \<open>--provider=foo\<close>, a diff on the pipe, a server that answers.\<close>

theorem unknown_provider_witness:
  "''foo'' \<noteq> ''openai'' \<and> ''foo'' \<noteq> ''google''
   \<and> parseFlags (demo_flags\<lparr>providerFlag := ''openai''\<rparr>)
       = (Inr \<lparr>Model = ''o4-mini'', Mode = ''commit'', Provider = ''openai''\<rparr>, [])
   \<and> parseFlags (demo_flags\<lparr>providerFlag := ''foo''\<rparr>)
       = (Inr \<lparr>Model = ''o4-mini'', Mode = ''commit'', Provider = ''openai''\<rparr>,
          map Stderr (snd (ProviderEnumFromString ''foo'')))
   \<and> Stderr ''[WARN] invalid provider: foo''
       \<in> set (snd (parseFlags (demo_flags\<lparr>providerFlag := ''foo''\<rparr>)))
   \<and> main demo_environ (demo_proc ('' diff --git a/x b/x'' @ NL) ([], None))
        (demo_net 200 body_choice) (demo_flags\<lparr>providerFlag := ''openai''\<rparr>)
       = (Inr (), [Stdout (''fix: typo'' @ NL)])
   \<and> main demo_environ (demo_proc ('' diff --git a/x b/x'' @ NL) ([], None))
        (demo_net 200 body_choice) (demo_flags\<lparr>providerFlag := ''foo''\<rparr>)
       = (Inr (), map Stderr (snd (ProviderEnumFromString ''foo'')) @ [Stdout (''fix: typo'' @ NL)])
   \<and> gptc_main demo_environ (demo_proc ('' diff --git a/x b/x'' @ NL) ([], None))
        (demo_net 200 body_choice) (demo_flags\<lparr>providerFlag := ''foo''\<rparr>)
       = (Inl (Fatal ''Error generating message:failed to create provider: unsupported provider: foo''), [])"
proof -
  let ?os = "demo_proc ('' diff --git a/x b/x'' @ NL) ([], None)"
  let ?n = "demo_net 200 body_choice"
  let ?fd = "demo_flags\<lparr>providerFlag := ''openai''\<rparr>"
  let ?fs = "demo_flags\<lparr>providerFlag := ''foo''\<rparr>"
  let ?W = "map Stderr (snd (ProviderEnumFromString ''foo''))"
  have ne: "''foo'' \<noteq> ''openai''" "''foo'' \<noteq> ''google''"
    by simp_all
  have nohelp: "\<not> helpFlag demo_flags"
    by (simp add: demo_flags_def)
  have mode: "parseMode demo_flags = (ModeCommit, [])"
    by (simp add: parseMode_def demo_flags_def)
  have dp: "defaultProvider = ''openai''"
    by (simp add: defaultProvider_def OpenAI_def)
  have parse: "parseFlags ?fd
       = (Inr \<lparr>Model = ''o4-mini'', Mode = ''commit'', Provider = ''openai''\<rparr>, [])"
    by (simp add: parseFlags_def parseMode_def ProviderEnumFromString_def demo_flags_def
          defaultProvider_def defaultGPTModel_def OpenAI_def ModeCommit_def)
  have new: "NewProvider demo_environ \<lparr>Model = ''o4-mini'', Mode = ''commit'', Provider = ''openai''\<rparr>
               = Inr (OpenAIProvider demo_openai)"
    by (simp add: NewProvider_def os_LookupEnv_def demo_environ_def demo_openai_def OpenAI_def
          defaultGPTModel_def)
  have gen: "generateMessage demo_environ ?n
               \<lparr>Model = ''o4-mini'', Mode = ''commit'', Provider = ''openai''\<rparr> ''diff --git a/x b/x''
             = Inr ''fix: typo''"
    by (simp add: generateMessage_def ModeCommit_def new demo_OpenAI)
  have run: "main demo_environ ?os ?n ?fd = (Inr (), [Stdout (''fix: typo'' @ NL)])"
    by (simp add: main_def parse demo_getGitDiff gen del: append.simps)
  note inst = unknown_provider [OF ne, of demo_flags demo_environ ?os ?n]
  have parse': "parseFlags ?fs
       = (Inr \<lparr>Model = ''o4-mini'', Mode = ''commit'', Provider = ''openai''\<rparr>, ?W)"
    using inst nohelp parse by (simp add: dp)
  have warn: "Stderr ''[WARN] invalid provider: foo'' \<in> set (snd (parseFlags ?fs))"
    using inst parse' by auto
  have fst': "fst (main demo_environ ?os ?n ?fs) = Inr ()"
    using inst run by (simp add: dp)
  have "\<exists>rest. snd (main demo_environ ?os ?n ?fd) = snd (parseFlags ?fd) @ rest
              \<and> snd (main demo_environ ?os ?n ?fs) = snd (parseFlags ?fd) @ ?W @ rest"
    using inst nohelp by (simp add: dp)
  then have snd': "snd (main demo_environ ?os ?n ?fs) = ?W @ [Stdout (''fix: typo'' @ NL)]"
    by (auto simp add: run parse simp del: append.simps)
  have run': "main demo_environ ?os ?n ?fs = (Inr (), ?W @ [Stdout (''fix: typo'' @ NL)])"
    using fst' snd' by (simp add: prod_eq_iff)
  have gptc: "gptc_main demo_environ ?os ?n ?fs
       = (Inl (Fatal ''Error generating message:failed to create provider: unsupported provider: foo''), [])"
    using inst nohelp demo_getGitDiff [of "([], None)"] mode by simp
  from ne parse parse' warn run run' gptc show ?thesis by blast
qed

text \<open>
  Claim C2 as it is written fails in the single-provider program: with
  \<open>--provider=foo\<close> the run writes no warning and ends with a fatal error about the
  name, where the same run with \<open>--provider=openai\<close> prints the message.
\<close>

theorem unknown_provider_counterexample:
  "gptc_main demo_environ (demo_proc ('' diff --git a/x b/x'' @ NL) ([], None))
       (demo_net 200 body_choice) (demo_flags\<lparr>providerFlag := ''foo''\<rparr>)
     = (Inl (Fatal ''Error generating message:failed to create provider: unsupported provider: foo''), [])
   \<and> gptc_main demo_environ (demo_proc ('' diff --git a/x b/x'' @ NL) ([], None))
       (demo_net 200 body_choice) (demo_flags\<lparr>providerFlag := ''openai''\<rparr>)
     = (Inr (), [Stdout (''fix: typo'' @ NL)])"
proof -
  let ?os = "demo_proc ('' diff --git a/x b/x'' @ NL) ([], None)"
  let ?n = "demo_net 200 body_choice"
  have parse: "gptc_parseFlags (demo_flags\<lparr>providerFlag := p\<rparr>)
                 = (Inr \<lparr>Model = ''o4-mini'', Mode = ModeCommit, Provider = p\<rparr>, [])" for p
    by (simp add: gptc_parseFlags_def parseMode_def demo_flags_def defaultGPTModel_def)
  have bad: "gptc_generateMessage demo_environ ?n
               \<lparr>Model = ''o4-mini'', Mode = ModeCommit, Provider = ''foo''\<rparr> ''diff --git a/x b/x''
             = Inl (Errorf ''failed to create provider: unsupported provider: foo'')"
    by (simp add: gptc_generateMessage_def gptc_NewProvider_def)
  have good: "gptc_generateMessage demo_environ ?n
               \<lparr>Model = ''o4-mini'', Mode = ModeCommit, Provider = ''openai''\<rparr> ''diff --git a/x b/x''
             = Inr ''fix: typo''"
    by (simp add: gptc_generateMessage_def gptc_NewProvider_def os_LookupEnv_def demo_environ_def
          demo_gptc_OpenAI)
  show ?thesis
    by (simp add: gptc_main_def parse demo_getGitDiff bad good del: append.simps)
qed

end
